theory Spec2Isabelle
  imports Main
begin

section \<open>Values the constructs exchange\<close>

text \<open>
  The repository (\<^verbatim>\<open>src/lib/ManagedWordpress.ts\<close>, \<^verbatim>\<open>src/lib/wordpress-stack.ts\<close>,
  \<^verbatim>\<open>src/bin/deploy.ts\<close>) is one constructor that fills configuration objects of the
  infrastructure framework and wires identifiers between them. The embedding keeps that
  shape: every configuration object is a record or a datatype, every \<^verbatim>\<open>new X(this, id, props)\<close>
  builds the record of the resource, and every later mutating call
  (\<^verbatim>\<open>addContainer\<close>, \<^verbatim>\<open>addVolume\<close>, \<^verbatim>\<open>addMountPoints\<close>, ...) is a function from the old record
  to the new one. A TypeScript \<^verbatim>\<open>number\<close> is an \<open>int\<close> (the source only uses whole
  numbers); a field that several interfaces share (\<^verbatim>\<open>vpc\<close>, \<^verbatim>\<open>port\<close>, \<^verbatim>\<open>vpcSubnets\<close>) carries
  a prefix, since the fields of all records live in one name space.

  The constructs and methods of the framework (\<^verbatim>\<open>aws-cdk-lib\<close>) are not part of the
  repository. Where the constructor relies on what one of them does beyond storing its
  properties (the default container of a task definition, the default subnet groups of a
  VPC, the token behind a secret value, the security groups it creates and the rules it
  adds to them, the calls it refuses), the model gives it its documented meaning and says
  so at the definition.
\<close>

type_synonym number = int

text \<open>Line 40 and line 41 of \<^verbatim>\<open>ManagedWordpress.ts\<close>.\<close>

definition CONTAINER_PORT :: number where
  "CONTAINER_PORT = 8080"

definition SCALE_PERCENT :: number where
  "SCALE_PERCENT = 90"

text \<open>
  \<^verbatim>\<open>Number.prototype.toString()\<close> on a whole number: its decimal digits, with a minus sign
  below zero (JavaScript prints every digit of a whole number below ten to the power 21;
  the source passes port numbers and task sizes).
\<close>

fun natToString :: "nat \<Rightarrow> string" where
  "natToString n =
     (if n < 10 then [''0123456789'' ! n]
      else natToString (n div 10) @ [''0123456789'' ! (n mod 10)])"

definition toString :: "number \<Rightarrow> string" where
  "toString n = (if n < 0 then ''-'' @ natToString (nat (- n)) else natToString (nat n))"

text \<open>
  A secret is looked up by name (\<^verbatim>\<open>DatabaseSecret.fromSecretNameV2(scope, id, name)\<close>): the
  result is a reference that holds the name and nothing of the secret's content.
  \<^verbatim>\<open>secret.secretValueFromJson(field)\<close> is a reference to one JSON field of the secret, and
  \<^verbatim>\<open>unsafeUnwrap()\<close> turns it into a string-typed token that the deployment engine
  resolves; the declared configuration holds the token. A string of the configuration is
  therefore either a literal of the source or such a token.
\<close>

datatype ISecret = FromSecretNameV2 string string

fun secretName :: "ISecret \<Rightarrow> string" where
  "secretName (FromSecretNameV2 cid nm) = nm"

datatype SecretValue = SecretValueFromJson ISecret string

definition secretValueFromJson :: "ISecret \<Rightarrow> string \<Rightarrow> SecretValue" where
  "secretValueFromJson s field = SecretValueFromJson s field"

datatype tstring = Literal string | Token SecretValue

definition unsafeUnwrap :: "SecretValue \<Rightarrow> tstring" where
  "unsafeUnwrap v = Token v"

text \<open>\<^verbatim>\<open>Secret.fromSecretsManager(secret, field)\<close> of the container service: a container
  secret that is resolved from the secret store when the task is launched.\<close>

datatype EcsSecret = FromSecretsManager ISecret string

text \<open>Attributes of resources that other resources refer to (\<^verbatim>\<open>efs.fileSystemId\<close>,
  \<^verbatim>\<open>accessPoint.accessPointId\<close>, \<^verbatim>\<open>databaseSecret.secretArn\<close>, ...), by the construct id
  of the resource.\<close>

datatype attr =
    FileSystemId string
  | FileSystemArn string
  | AccessPointId string
  | SecretArn ISecret

datatype Duration = Seconds number

section \<open>Network\<close>

datatype SubnetType = PUBLIC | PRIVATE_WITH_EGRESS | PRIVATE_ISOLATED

record SubnetSelection =
  subnetType :: SubnetType

record SubnetConfiguration =
  sc_name :: string
  sc_subnetType :: SubnetType

record VpcProps =
  maxAzs :: "number option"
  natGateways :: "number option"
  subnetConfiguration :: "SubnetConfiguration list option"

record Subnet =
  subnet_availabilityZone :: string
  subnet_group :: string
  subnet_type :: SubnetType

record Vpc =
  vpc_id :: string
  vpc_availabilityZones :: "string list"
  vpc_natGateways :: "number option"
  vpc_subnetConfiguration :: "SubnetConfiguration list"
  vpc_subnets :: "Subnet list"

text \<open>
  The framework's \<^verbatim>\<open>Vpc\<close> construct (\<^verbatim>\<open>aws-cdk-lib/aws-ec2\<close>, not part of the
  repository), as far as the stack relies on it. The stack gives \<^verbatim>\<open>maxAzs\<close> and
  \<^verbatim>\<open>natGateways\<close> and no \<^verbatim>\<open>subnetConfiguration\<close>, so the subnet groups are the framework's
  documented defaults: \<^verbatim>\<open>Vpc.DEFAULT_SUBNETS\<close>, a public and a private group, and, when
  \<^verbatim>\<open>natGateways\<close> is 0, \<^verbatim>\<open>Vpc.DEFAULT_SUBNETS_NO_NAT\<close>, a public and an isolated group.
  The VPC uses the first \<^verbatim>\<open>maxAzs\<close> availability zones of the stack (3 when not given)
  and has one subnet per group and zone. The zones of the stack come from the deployment
  environment and are a parameter.
\<close>

definition DEFAULT_SUBNETS :: "SubnetConfiguration list" where
  "DEFAULT_SUBNETS =
     [\<lparr>sc_name = ''Public'', sc_subnetType = PUBLIC\<rparr>,
      \<lparr>sc_name = ''Private'', sc_subnetType = PRIVATE_WITH_EGRESS\<rparr>]"

definition DEFAULT_SUBNETS_NO_NAT :: "SubnetConfiguration list" where
  "DEFAULT_SUBNETS_NO_NAT =
     [\<lparr>sc_name = ''Public'', sc_subnetType = PUBLIC\<rparr>,
      \<lparr>sc_name = ''Isolated'', sc_subnetType = PRIVATE_ISOLATED\<rparr>]"

text \<open>\<^verbatim>\<open>xs.slice(0, n)\<close>: the first \<open>n\<close> elements, and for a negative \<open>n\<close> all but the
  last \<open>- n\<close>.\<close>

definition slice0 :: "number \<Rightarrow> 'a list \<Rightarrow> 'a list" where
  "slice0 n xs = (if n < 0 then take (length xs - nat (- n)) xs else take (nat n) xs)"

definition Vpc_new :: "string list \<Rightarrow> string \<Rightarrow> VpcProps \<Rightarrow> Vpc" where
  "Vpc_new stackZones cid props =
     (let zones = slice0 (case maxAzs props of None \<Rightarrow> 3 | Some n \<Rightarrow> n) stackZones;
          groups = (case subnetConfiguration props of
                      Some c \<Rightarrow> c
                    | None \<Rightarrow> if natGateways props = Some 0 then DEFAULT_SUBNETS_NO_NAT
                              else DEFAULT_SUBNETS)
      in \<lparr>vpc_id = cid,
          vpc_availabilityZones = zones,
          vpc_natGateways = natGateways props,
          vpc_subnetConfiguration = groups,
          vpc_subnets =
            concat (map (\<lambda>g. map (\<lambda>z. \<lparr>subnet_availabilityZone = z, subnet_group = sc_name g,
                                       subnet_type = sc_subnetType g\<rparr>) zones) groups)\<rparr>)"

text \<open>
  \<^verbatim>\<open>vpc.selectSubnets({subnetType: t})\<close>: the subnets of that type; the framework refuses a
  selection that finds no subnet (the result is \<open>None\<close>).
\<close>

definition selectSubnets :: "Vpc \<Rightarrow> SubnetSelection \<Rightarrow> Subnet list option" where
  "selectSubnets vpc sel =
     (case filter (\<lambda>s. subnet_type s = subnetType sel) (vpc_subnets vpc) of
        [] \<Rightarrow> None
      | s # ss \<Rightarrow> Some (s # ss))"

record IHostedZone =
  zoneName :: string

text \<open>
  The framework's \<^verbatim>\<open>HostedZone.fromLookup(scope, id, {domainName})\<close>: the zone of that
  domain name, its name without the trailing dot. The lookup needs the account and the
  region of the stack and is refused without them; the refusal is \<open>fromLookup_refusal\<close>
  below, and this function is the zone of a lookup that is answered.
\<close>

definition HostedZone_fromLookup :: "string \<Rightarrow> string \<Rightarrow> IHostedZone" where
  "HostedZone_fromLookup cid domainName =
     \<lparr>zoneName = (if domainName \<noteq> [] \<and> last domainName = CHR ''.''
                   then butlast domainName else domainName)\<rparr>"

section \<open>File system\<close>

datatype PerformanceMode = GENERAL_PURPOSE | MAX_IO

datatype ThroughputMode = BURSTING | PROVISIONED | ELASTIC

record FileSystem =
  fs_id :: string
  fs_vpc :: Vpc
  enableAutomaticBackups :: bool
  encrypted :: bool
  performanceMode :: PerformanceMode
  throughputMode :: ThroughputMode
  fs_vpcSubnets :: SubnetSelection
  fs_allowDefaultPortFrom :: "string list"

definition fileSystemId :: "FileSystem \<Rightarrow> attr" where
  "fileSystemId fs = FileSystemId (fs_id fs)"

definition fileSystemArn :: "FileSystem \<Rightarrow> attr" where
  "fileSystemArn fs = FileSystemArn (fs_id fs)"

record Acl =
  ownerUid :: string
  ownerGid :: string
  permissions :: string

record PosixUser =
  uid :: string
  gid :: string

record AccessPoint =
  ap_id :: string
  ap_fileSystem :: string
  ap_path :: string
  createAcl :: Acl
  posixUser :: PosixUser

definition accessPointId :: "AccessPoint \<Rightarrow> attr" where
  "accessPointId ap = AccessPointId (ap_id ap)"

section \<open>Task definition and container\<close>

datatype Compatibility = EC2 | FARGATE | EC2_AND_FARGATE | EXTERNAL

datatype RetentionDays = ONE_DAY | ONE_WEEK | ONE_MONTH

record AwsLogDriverProps =
  streamPrefix :: string
  logRetention :: RetentionDays

record MountPoint =
  containerPath :: string
  readOnly :: bool
  sourceVolume :: string

record PortMapping =
  containerPort :: number
  hostPort :: number

record ContainerDefinitionOptions =
  cdo_image :: string
  cdo_logging :: AwsLogDriverProps
  cdo_environment :: "(string \<times> string) list"
  cdo_secrets :: "(string \<times> EcsSecret) list"

record ContainerDefinition =
  containerName :: string
  container_image :: string
  logging :: AwsLogDriverProps
  environment :: "(string \<times> string) list"
  secrets :: "(string \<times> EcsSecret) list"
  essential :: bool
  mountPoints :: "MountPoint list"
  portMappings :: "PortMapping list"

record AuthorizationConfig =
  ac_accessPointId :: attr
  iam :: string

record EfsVolumeConfiguration =
  evc_fileSystemId :: attr
  transitEncryption :: string
  authorizationConfig :: AuthorizationConfig

record Volume =
  vol_name :: string
  efsVolumeConfiguration :: EfsVolumeConfiguration

record PolicyStatement =
  actions :: "string list"
  resources :: "attr list"

record TaskDefinition =
  td_id :: string
  compatibility :: Compatibility
  memoryMiB :: string
  td_cpu :: string
  containers :: "ContainerDefinition list"
  defaultContainer :: "string option"
  volumes :: "Volume list"
  taskRolePolicy :: "PolicyStatement list"

definition TaskDefinition_new :: "string \<Rightarrow> Compatibility \<Rightarrow> string \<Rightarrow> string \<Rightarrow> TaskDefinition" where
  "TaskDefinition_new cid kind mem cpu =
     \<lparr>td_id = cid, compatibility = kind, memoryMiB = mem, td_cpu = cpu,
      containers = [], defaultContainer = None, volumes = [], taskRolePolicy = []\<rparr>"

text \<open>
  \<^verbatim>\<open>ContainerImage.fromRegistry(name)\<close> is the image name. The framework's
  \<^verbatim>\<open>taskDefinition.addContainer(id, options)\<close> adds a container named by its id (no
  \<^verbatim>\<open>containerName\<close> is given), essential unless said otherwise; the first essential
  container added becomes the task definition's \<^verbatim>\<open>defaultContainer\<close>. The default
  container is the same object as the container in the list: the model holds its name and
  updates the list entry of that name.
\<close>

definition fromRegistry :: "string \<Rightarrow> string" where
  "fromRegistry nm = nm"

definition addContainer ::
  "string \<Rightarrow> ContainerDefinitionOptions \<Rightarrow> TaskDefinition \<Rightarrow> TaskDefinition \<times> ContainerDefinition" where
  "addContainer cid opts td =
     (let c = \<lparr>containerName = cid, container_image = cdo_image opts, logging = cdo_logging opts,
               environment = cdo_environment opts, secrets = cdo_secrets opts, essential = True,
               mountPoints = [], portMappings = []\<rparr>
      in (td\<lparr>containers := containers td @ [c],
              defaultContainer := (case defaultContainer td of
                                     None \<Rightarrow> if essential c then Some (containerName c) else None
                                   | Some d \<Rightarrow> Some d)\<rparr>, c))"

definition addVolume :: "Volume \<Rightarrow> TaskDefinition \<Rightarrow> TaskDefinition" where
  "addVolume v td = td\<lparr>volumes := volumes td @ [v]\<rparr>"

definition addToTaskRolePolicy :: "PolicyStatement \<Rightarrow> TaskDefinition \<Rightarrow> TaskDefinition" where
  "addToTaskRolePolicy s td = td\<lparr>taskRolePolicy := taskRolePolicy td @ [s]\<rparr>"

definition addMountPoints :: "MountPoint \<Rightarrow> ContainerDefinition \<Rightarrow> ContainerDefinition" where
  "addMountPoints m c = c\<lparr>mountPoints := mountPoints c @ [m]\<rparr>"

definition addPortMappings :: "PortMapping \<Rightarrow> ContainerDefinition \<Rightarrow> ContainerDefinition" where
  "addPortMappings p c = c\<lparr>portMappings := portMappings c @ [p]\<rparr>"

text \<open>\<^verbatim>\<open>taskDefinition.defaultContainer?.f(...)\<close>: the call is made on the default container
  when there is one and skipped otherwise.\<close>

definition onDefaultContainer ::
  "(ContainerDefinition \<Rightarrow> ContainerDefinition) \<Rightarrow> TaskDefinition \<Rightarrow> TaskDefinition" where
  "onDefaultContainer f td =
     (case defaultContainer td of
        None \<Rightarrow> td
      | Some d \<Rightarrow> td\<lparr>containers := map (\<lambda>c. if containerName c = d then f c else c) (containers td)\<rparr>)"

definition theDefaultContainer :: "TaskDefinition \<Rightarrow> ContainerDefinition option" where
  "theDefaultContainer td =
     (case defaultContainer td of
        None \<Rightarrow> None
      | Some d \<Rightarrow> find (\<lambda>c. containerName c = d) (containers td))"

section \<open>Load balancer, service and scaling\<close>

record ApplicationLoadBalancer =
  lb_id :: string
  lb_vpc :: Vpc
  internetFacing :: bool
  lb_vpcSubnets :: SubnetSelection

record Cluster =
  cluster_id :: string
  cluster_vpc :: Vpc

text \<open>\<^verbatim>\<open>circuitBreaker\<close> is an optional property of the service: the deployment circuit
  breaker is enabled when the property is given, and \<^verbatim>\<open>rollback\<close> says whether a failed
  deployment is rolled back.\<close>

record DeploymentCircuitBreaker =
  rollback :: bool

record FargateService =
  svc_id :: string
  svc_cluster :: string
  svc_taskDefinition :: string
  assignPublicIp :: bool
  desiredCount :: number
  svc_vpcSubnets :: SubnetSelection
  minHealthyPercent :: number
  maxHealthyPercent :: number
  circuitBreaker :: "DeploymentCircuitBreaker option"

record LoadBalancerTarget =
  lt_service :: string
  lt_containerName :: string
  lt_containerPort :: number

definition loadBalancerTarget :: "FargateService \<Rightarrow> string \<Rightarrow> number \<Rightarrow> LoadBalancerTarget" where
  "loadBalancerTarget svc nm p =
     \<lparr>lt_service = svc_id svc, lt_containerName = nm, lt_containerPort = p\<rparr>"

datatype PredefinedMetric =
    ECS_SERVICE_AVERAGE_CPU_UTILIZATION
  | ECS_SERVICE_AVERAGE_MEMORY_UTILIZATION

record TargetTrackingPolicy =
  policy_id :: string
  predefinedMetric :: PredefinedMetric
  targetUtilizationPercent :: number

record ScalableTaskCount =
  stc_service :: string
  minCapacity :: number
  maxCapacity :: number
  policies :: "TargetTrackingPolicy list"

text \<open>The framework's \<^verbatim>\<open>service.autoScaleTaskCount({minCapacity, maxCapacity})\<close>: the scaling
  target of the service, as declared. The framework refuses a negative bound and a
  maximum below the minimum; the refusal is \<open>capacity_refusal\<close> in the section on running
  the application.\<close>

definition autoScaleTaskCount :: "FargateService \<Rightarrow> number \<Rightarrow> number \<Rightarrow> ScalableTaskCount" where
  "autoScaleTaskCount svc lo hi =
     \<lparr>stc_service = svc_id svc, minCapacity = lo, maxCapacity = hi, policies = []\<rparr>"

definition scaleOnCpuUtilization :: "string \<Rightarrow> number \<Rightarrow> ScalableTaskCount \<Rightarrow> ScalableTaskCount" where
  "scaleOnCpuUtilization cid pct s =
     s\<lparr>policies := policies s @
          [\<lparr>policy_id = cid, predefinedMetric = ECS_SERVICE_AVERAGE_CPU_UTILIZATION,
            targetUtilizationPercent = pct\<rparr>]\<rparr>"

definition scaleOnMemoryUtilization :: "string \<Rightarrow> number \<Rightarrow> ScalableTaskCount \<Rightarrow> ScalableTaskCount" where
  "scaleOnMemoryUtilization cid pct s =
     s\<lparr>policies := policies s @
          [\<lparr>policy_id = cid, predefinedMetric = ECS_SERVICE_AVERAGE_MEMORY_UTILIZATION,
            targetUtilizationPercent = pct\<rparr>]\<rparr>"

datatype ApplicationProtocol = HTTP | HTTPS

record HealthCheck =
  hc_path :: string
  hc_port :: string
  healthyHttpCodes :: string
  hc_interval :: Duration
  hc_timeout :: Duration
  healthyThresholdCount :: number

record ApplicationTargetGroup =
  tg_id :: string
  tg_port :: number
  tg_protocol :: ApplicationProtocol
  deregistrationDelay :: Duration
  tg_vpc :: Vpc
  targets :: "LoadBalancerTarget list"
  healthCheck :: HealthCheck

record FixedResponseOptions =
  contentType :: "string option"
  messageBody :: "string option"

datatype ListenerAction =
    FixedResponse number FixedResponseOptions
  | Forward "string list"

datatype ListenerCondition = HttpHeader string "tstring list"

record ApplicationListener =
  listener_id :: string
  defaultAction :: ListenerAction
  listener_loadBalancer :: string
  listener_open :: bool
  listener_port :: number

record ApplicationListenerRule =
  rule_id :: string
  rule_listener :: string
  priority :: number
  rule_targetGroups :: "string list"
  conditions :: "ListenerCondition list"

section \<open>Content delivery, certificate and DNS\<close>

datatype OriginProtocolPolicy = HTTP_ONLY | MATCH_VIEWER | HTTPS_ONLY

record LoadBalancerV2Origin =
  origin_loadBalancer :: string
  protocolPolicy :: OriginProtocolPolicy
  customHeaders :: "(string \<times> tstring) list"

datatype AllowedMethods = ALLOW_GET_HEAD | ALLOW_GET_HEAD_OPTIONS | ALLOW_ALL

datatype CachePolicy = CACHING_OPTIMIZED | CACHING_DISABLED

datatype ViewerProtocolPolicy = REDIRECT_TO_HTTPS | VIEWER_HTTPS_ONLY | VIEWER_ALLOW_ALL

datatype OriginRequestQueryStringBehavior = QueryString_none | QueryString_all

datatype OriginRequestHeaderBehavior = Header_none | Header_allowList "string list"

datatype OriginRequestPolicy =
    ALL_VIEWER
  | OriginRequestPolicy_new string OriginRequestQueryStringBehavior OriginRequestHeaderBehavior

record BehaviorOptions =
  origin :: LoadBalancerV2Origin
  allowedMethods :: AllowedMethods
  cachePolicy :: CachePolicy
  viewerProtocolPolicy :: ViewerProtocolPolicy
  originRequestPolicy :: OriginRequestPolicy

datatype PriceClass = PRICE_CLASS_100 | PRICE_CLASS_200 | PRICE_CLASS_ALL

record DnsValidatedCertificate =
  cert_id :: string
  cert_domainName :: string
  cert_hostedZone :: IHostedZone
  cert_region :: string

record Distribution =
  dist_id :: string
  dist_certificate :: string
  domainNames :: "string list"
  priceClass :: PriceClass
  defaultBehavior :: BehaviorOptions
  additionalBehaviors :: "(string \<times> BehaviorOptions) list"

datatype RecordTarget = CloudFrontTarget string

record ARecord =
  arecord_id :: string
  recordName :: string
  arecord_target :: RecordTarget
  arecord_zone :: IHostedZone

section \<open>The ManagedWordpress construct\<close>

record Db =
  db_secretName :: string

record Size =
  size_memory :: number
  size_cpu :: number

record Scaling =
  scaling_min :: number
  scaling_max :: number

record ManagedWordpressProps =
  siteName :: string
  hostedZone :: IHostedZone
  vpc :: Vpc
  db :: Db
  props_size :: Size
  props_scaling :: Scaling
  imageVersion :: string
  databaseName :: "string option"

text \<open>
  The construct is the list of the resources its constructor declares, in the order of
  the source; a resource that later statements change (the task definition, the file
  system's connections, the scaling target) stands in the list as the constructor leaves
  it. A reference from one resource to another one of the same scope is the construct id
  of that resource.
\<close>

datatype Resource =
    RFileSystem FileSystem
  | RAccessPoint AccessPoint
  | RTaskDefinition TaskDefinition
  | RSecret ISecret
  | RLoadBalancer ApplicationLoadBalancer
  | RCluster Cluster
  | RService FargateService
  | RTargetGroup ApplicationTargetGroup
  | RListener ApplicationListener
  | RListenerRule ApplicationListenerRule
  | RScaling ScalableTaskCount
  | RCertificate DnsValidatedCertificate
  | RDistribution Distribution
  | RARecord ARecord

record ManagedWordpressConstruct =
  mw_id :: string
  children :: "Resource list"

text \<open>\<^verbatim>\<open>efs.connections.allowDefaultPortFrom(service.connections)\<close> (line 192).\<close>

definition allowDefaultPortFrom :: "FargateService \<Rightarrow> FileSystem \<Rightarrow> FileSystem" where
  "allowDefaultPortFrom svc fs = fs\<lparr>fs_allowDefaultPortFrom := fs_allowDefaultPortFrom fs @ [svc_id svc]\<rparr>"

text \<open>The constructor, lines 65 to 284 of \<^verbatim>\<open>ManagedWordpress.ts\<close>, statement by statement.\<close>

definition ManagedWordpress :: "string \<Rightarrow> ManagedWordpressProps \<Rightarrow> ManagedWordpressConstruct" where
  "ManagedWordpress cid props =
     (let efs0 = \<lparr>fs_id = ''PersistentStorage'', fs_vpc = vpc props,
                  enableAutomaticBackups = True, encrypted = True,
                  performanceMode = GENERAL_PURPOSE, throughputMode = ELASTIC,
                  fs_vpcSubnets = \<lparr>subnetType = PRIVATE_ISOLATED\<rparr>,
                  fs_allowDefaultPortFrom = []\<rparr>;
          accessPoint = \<lparr>ap_id = ''PersistentStorageAccessPoint'', ap_fileSystem = fs_id efs0,
                         ap_path = ''/wordpress'',
                         createAcl = \<lparr>ownerUid = ''1001'', ownerGid = ''0'', permissions = ''0755''\<rparr>,
                         posixUser = \<lparr>uid = ''1001'', gid = ''0''\<rparr>\<rparr>;
          td0 = TaskDefinition_new ''TaskDefinition'' FARGATE
                  (toString (size_memory (props_size props))) (toString (size_cpu (props_size props)));
          databaseSecret = FromSecretNameV2 ''DatabaseSecret'' (db_secretName (db props));
          (td1, container) =
             addContainer ''WebContainer''
               \<lparr>cdo_image = fromRegistry (''bitnami/wordpress:'' @ imageVersion props),
                cdo_logging = \<lparr>streamPrefix = ''/ecs/Wordpress'', logRetention = ONE_WEEK\<rparr>,
                cdo_environment =
                  [(''MYSQL_CLIENT_ENABLE_SSL'', ''yes''),
                   (''WORDPRESS_ENABLE_DATABASE_SSL'', ''yes''),
                   (''WORDPRESS_EXTRA_WP_CONFIG_CONTENT'',
                    ''define('FORCE_SSL_ADMIN', true); $_SERVER['HTTPS']='on';'')],
                cdo_secrets =
                  [(''WORDPRESS_DATABASE_NAME'', FromSecretsManager databaseSecret ''dbname''),
                   (''WORDPRESS_DATABASE_HOST'', FromSecretsManager databaseSecret ''host''),
                   (''WORDPRESS_DATABASE_PORT_NUMBER'', FromSecretsManager databaseSecret ''port''),
                   (''WORDPRESS_DATABASE_USER'', FromSecretsManager databaseSecret ''username''),
                   (''WORDPRESS_DATABASE_PASSWORD'', FromSecretsManager databaseSecret ''password'')]\<rparr>
               td0;
          volumeName = ''wp-vol'';
          td2 = addVolume
                  \<lparr>vol_name = volumeName,
                   efsVolumeConfiguration =
                     \<lparr>evc_fileSystemId = fileSystemId efs0,
                      transitEncryption = ''ENABLED'',
                      authorizationConfig =
                        \<lparr>ac_accessPointId = accessPointId accessPoint, iam = ''ENABLED''\<rparr>\<rparr>\<rparr>
                  td1;
          td3 = onDefaultContainer
                  (addMountPoints \<lparr>containerPath = ''/bitnami/wordpress'', readOnly = False,
                                   sourceVolume = volumeName\<rparr>)
                  td2;
          td4 = addToTaskRolePolicy
                  \<lparr>actions = [''elasticfilesystem:ClientRootAccess'',
                              ''elasticfilesystem:ClientWrite'',
                              ''elasticfilesystem:ClientMount'',
                              ''elasticfilesystem:DescribeMountTargets''],
                   resources = [fileSystemArn efs0]\<rparr>
                  td3;
          td5 = addToTaskRolePolicy
                  \<lparr>actions = [''secretsmanager:GetSecretValue''],
                   resources = [SecretArn databaseSecret]\<rparr>
                  td4;
          taskDefinition = onDefaultContainer
                  (addPortMappings \<lparr>containerPort = CONTAINER_PORT, hostPort = CONTAINER_PORT\<rparr>)
                  td5;
          loadBalancer = \<lparr>lb_id = ''LoadBalancer'', lb_vpc = vpc props, internetFacing = True,
                          lb_vpcSubnets = \<lparr>subnetType = PUBLIC\<rparr>\<rparr>;
          cluster = \<lparr>cluster_id = ''Cluster'', cluster_vpc = vpc props\<rparr>;
          service = \<lparr>svc_id = ''ContainerService'', svc_cluster = cluster_id cluster,
                     svc_taskDefinition = td_id taskDefinition,
                     assignPublicIp = True, desiredCount = 1,
                     svc_vpcSubnets = \<lparr>subnetType = PUBLIC\<rparr>,
                     minHealthyPercent = 50, maxHealthyPercent = 200,
                     circuitBreaker = Some \<lparr>rollback = True\<rparr>\<rparr>;
          efs = allowDefaultPortFrom service efs0;
          targetGroup = \<lparr>tg_id = ''TargetGroup'', tg_port = CONTAINER_PORT, tg_protocol = HTTP,
                         deregistrationDelay = Seconds 5, tg_vpc = vpc props,
                         targets = [loadBalancerTarget service (containerName container) CONTAINER_PORT],
                         healthCheck = \<lparr>hc_path = ''/'', hc_port = toString CONTAINER_PORT,
                                         healthyHttpCodes = ''200'', hc_interval = Seconds 5,
                                         hc_timeout = Seconds 2, healthyThresholdCount = 2\<rparr>\<rparr>;
          listener = \<lparr>listener_id = ''Listener'',
                      defaultAction = FixedResponse 403
                                        \<lparr>contentType = None, messageBody = Some ''Access Denied''\<rparr>,
                      listener_loadBalancer = lb_id loadBalancer,
                      listener_open = True, listener_port = 80\<rparr>;
          listenerRule = \<lparr>rule_id = ''ListenerRule'', rule_listener = listener_id listener,
                          priority = 1, rule_targetGroups = [tg_id targetGroup],
                          conditions =
                            [HttpHeader ''X-Custom-Header''
                               [unsafeUnwrap (secretValueFromJson databaseSecret ''loadbalancer'')]]\<rparr>;
          scaling0 = autoScaleTaskCount service
                       (scaling_min (props_scaling props)) (scaling_max (props_scaling props));
          scaling1 = scaleOnCpuUtilization ''cpu'' SCALE_PERCENT scaling0;
          scaling = scaleOnMemoryUtilization ''memory'' SCALE_PERCENT scaling1;
          certificate = \<lparr>cert_id = ''Certificate'', cert_domainName = zoneName (hostedZone props),
                         cert_hostedZone = hostedZone props, cert_region = ''us-east-1''\<rparr>;
          distribution =
            \<lparr>dist_id = ''CDN'', dist_certificate = cert_id certificate,
             domainNames = [zoneName (hostedZone props)],
             priceClass = PRICE_CLASS_100,
             defaultBehavior =
               \<lparr>origin = \<lparr>origin_loadBalancer = lb_id loadBalancer, protocolPolicy = HTTP_ONLY,
                          customHeaders =
                            [(''X-Custom-Header'',
                              unsafeUnwrap (secretValueFromJson databaseSecret ''loadbalancer''))]\<rparr>,
                allowedMethods = ALLOW_ALL, cachePolicy = CACHING_DISABLED,
                viewerProtocolPolicy = REDIRECT_TO_HTTPS, originRequestPolicy = ALL_VIEWER\<rparr>,
             additionalBehaviors =
               [(''wp-includes/*'',
                 \<lparr>origin = \<lparr>origin_loadBalancer = lb_id loadBalancer, protocolPolicy = HTTP_ONLY,
                            customHeaders =
                              [(''X-Custom-Header'',
                                unsafeUnwrap (secretValueFromJson databaseSecret ''loadbalancer''))]\<rparr>,
                  allowedMethods = ALLOW_ALL, cachePolicy = CACHING_OPTIMIZED,
                  viewerProtocolPolicy = REDIRECT_TO_HTTPS,
                  originRequestPolicy =
                    OriginRequestPolicy_new ''Limited'' QueryString_all (Header_allowList [''Host''])\<rparr>)]\<rparr>;
          domainARecord = \<lparr>arecord_id = ''DomainARecord'', recordName = zoneName (hostedZone props),
                           arecord_target = CloudFrontTarget (dist_id distribution),
                           arecord_zone = hostedZone props\<rparr>
      in \<lparr>mw_id = cid,
          children =
            [RFileSystem efs, RAccessPoint accessPoint, RTaskDefinition taskDefinition,
             RSecret databaseSecret, RLoadBalancer loadBalancer, RCluster cluster,
             RService service, RTargetGroup targetGroup, RListener listener,
             RListenerRule listenerRule, RScaling scaling, RCertificate certificate,
             RDistribution distribution, RARecord domainARecord]\<rparr>)"

text \<open>The resources of one kind among the children of the construct.\<close>

definition fileSystems :: "ManagedWordpressConstruct \<Rightarrow> FileSystem list" where
  "fileSystems w = List.map_filter (\<lambda>r. case r of RFileSystem x \<Rightarrow> Some x | _ \<Rightarrow> None) (children w)"

definition accessPoints :: "ManagedWordpressConstruct \<Rightarrow> AccessPoint list" where
  "accessPoints w = List.map_filter (\<lambda>r. case r of RAccessPoint x \<Rightarrow> Some x | _ \<Rightarrow> None) (children w)"

definition taskDefinitions :: "ManagedWordpressConstruct \<Rightarrow> TaskDefinition list" where
  "taskDefinitions w = List.map_filter (\<lambda>r. case r of RTaskDefinition x \<Rightarrow> Some x | _ \<Rightarrow> None) (children w)"

definition importedSecrets :: "ManagedWordpressConstruct \<Rightarrow> ISecret list" where
  "importedSecrets w = List.map_filter (\<lambda>r. case r of RSecret x \<Rightarrow> Some x | _ \<Rightarrow> None) (children w)"

definition loadBalancers :: "ManagedWordpressConstruct \<Rightarrow> ApplicationLoadBalancer list" where
  "loadBalancers w = List.map_filter (\<lambda>r. case r of RLoadBalancer x \<Rightarrow> Some x | _ \<Rightarrow> None) (children w)"

definition clusters :: "ManagedWordpressConstruct \<Rightarrow> Cluster list" where
  "clusters w = List.map_filter (\<lambda>r. case r of RCluster x \<Rightarrow> Some x | _ \<Rightarrow> None) (children w)"

definition services :: "ManagedWordpressConstruct \<Rightarrow> FargateService list" where
  "services w = List.map_filter (\<lambda>r. case r of RService x \<Rightarrow> Some x | _ \<Rightarrow> None) (children w)"

definition targetGroups :: "ManagedWordpressConstruct \<Rightarrow> ApplicationTargetGroup list" where
  "targetGroups w = List.map_filter (\<lambda>r. case r of RTargetGroup x \<Rightarrow> Some x | _ \<Rightarrow> None) (children w)"

definition listeners :: "ManagedWordpressConstruct \<Rightarrow> ApplicationListener list" where
  "listeners w = List.map_filter (\<lambda>r. case r of RListener x \<Rightarrow> Some x | _ \<Rightarrow> None) (children w)"

definition listenerRules :: "ManagedWordpressConstruct \<Rightarrow> ApplicationListenerRule list" where
  "listenerRules w = List.map_filter (\<lambda>r. case r of RListenerRule x \<Rightarrow> Some x | _ \<Rightarrow> None) (children w)"

definition scalableTargets :: "ManagedWordpressConstruct \<Rightarrow> ScalableTaskCount list" where
  "scalableTargets w = List.map_filter (\<lambda>r. case r of RScaling x \<Rightarrow> Some x | _ \<Rightarrow> None) (children w)"

definition distributions :: "ManagedWordpressConstruct \<Rightarrow> Distribution list" where
  "distributions w = List.map_filter (\<lambda>r. case r of RDistribution x \<Rightarrow> Some x | _ \<Rightarrow> None) (children w)"

section \<open>The stack\<close>

record Environment =
  account :: "string option"
  region :: "string option"

record StackProps =
  env :: Environment

record WordpressStackConstruct =
  stack_id :: string
  stack_props :: "StackProps option"
  stack_vpc :: Vpc
  stack_hostedZone :: IHostedZone
  wordpress :: ManagedWordpressConstruct

text \<open>The constructor of \<^verbatim>\<open>wordpress-stack.ts\<close>, lines 8 to 39: the stack as it is
  declared when the framework refuses none of the constructor's calls (the refusals are
  in the section on running the application). The availability zones of the stack are
  those of its environment.\<close>

definition WordpressStack :: "string list \<Rightarrow> string \<Rightarrow> StackProps option \<Rightarrow> WordpressStackConstruct" where
  "WordpressStack stackZones cid props =
     (let vpc = Vpc_new stackZones ''VPC''
                  \<lparr>maxAzs = Some 2, natGateways = Some 0, subnetConfiguration = None\<rparr>;
          hostedZone = HostedZone_fromLookup '' HostedZone'' ''nopremise.cloud'';
          wordpress = ManagedWordpress ''WebService''
                        \<lparr>siteName = ''No Premise Cloud'',
                         hostedZone = hostedZone,
                         vpc = vpc,
                         db = \<lparr>db_secretName = ''planetscape-mysql''\<rparr>,
                         props_size = \<lparr>size_memory = 512, size_cpu = 256\<rparr>,
                         props_scaling = \<lparr>scaling_min = 1, scaling_max = 2\<rparr>,
                         imageVersion = ''6.1.1'',
                         databaseName = None\<rparr>
      in \<lparr>stack_id = cid, stack_props = props, stack_vpc = vpc, stack_hostedZone = hostedZone,
          wordpress = wordpress\<rparr>)"

section \<open>What a listener does with a request\<close>

text \<open>
  The meaning of a listener declaration: the rules attached to a listener are tried in
  the order of their priority, the first rule all of whose conditions the request meets
  forwards the request to the rule's target groups, and a request that meets no rule gets
  the listener's default action. Whether a request meets a header condition is the load
  balancer's judgement on the request's header and the configured value, once the
  deployment has resolved the value; a request is represented by that judgement:
  \<open>req name v\<close> holds when the request carries a header \<open>name\<close> that matches the
  configured value \<open>v\<close>. A header condition lists alternatives.
\<close>

type_synonym request = "string \<Rightarrow> tstring \<Rightarrow> bool"

fun meets :: "request \<Rightarrow> ListenerCondition \<Rightarrow> bool" where
  "meets req (HttpHeader name vals) = list_ex (req name) vals"

fun firstRule :: "request \<Rightarrow> ApplicationListenerRule list \<Rightarrow> ApplicationListenerRule option" where
  "firstRule req [] = None"
| "firstRule req (r # rs) =
     (if list_all (meets req) (conditions r) then Some r else firstRule req rs)"

definition rulesOf :: "ManagedWordpressConstruct \<Rightarrow> ApplicationListener \<Rightarrow> ApplicationListenerRule list" where
  "rulesOf w l = sort_key priority (filter (\<lambda>r. rule_listener r = listener_id l) (listenerRules w))"

definition respond :: "ManagedWordpressConstruct \<Rightarrow> ApplicationListener \<Rightarrow> request \<Rightarrow> ListenerAction" where
  "respond w l req =
     (case firstRule req (rulesOf w l) of
        None \<Rightarrow> defaultAction l
      | Some r \<Rightarrow> Forward (rule_targetGroups r))"

text \<open>What the load balancer answers to a request, on each port it listens on.\<close>

definition answers :: "ManagedWordpressConstruct \<Rightarrow> request \<Rightarrow> (number \<times> ListenerAction) list" where
  "answers w req = map (\<lambda>l. (listener_port l, respond w l req)) (listeners w)"

text \<open>\<^verbatim>\<open>s.startsWith(p)\<close>, used to single out the \<^verbatim>\<open>WORDPRESS_DATABASE_*\<close> variables.\<close>

definition startsWith :: "string \<Rightarrow> string \<Rightarrow> bool" where
  "startsWith p s = (take (length p) s = p)"

section \<open>Literal values and references\<close>

text \<open>
  The places of the configuration that hold a value rather than a name, a path or an
  identifier: the values of the container's environment variables, which are literals of
  the source, and the header values of the listener rules' conditions and of the origins'
  custom headers, each a literal or a token. \<open>plaintextValues\<close> lists the literal ones.
\<close>

fun literalOf :: "tstring \<Rightarrow> string option" where
  "literalOf (Literal s) = Some s"
| "literalOf (Token v) = None"

fun conditionValues :: "ListenerCondition \<Rightarrow> tstring list" where
  "conditionValues (HttpHeader name vals) = vals"

definition headerValues :: "ManagedWordpressConstruct \<Rightarrow> tstring list" where
  "headerValues w =
     concat (map (\<lambda>r. concat (map conditionValues (conditions r))) (listenerRules w)) @
     concat (map (\<lambda>d. map snd (customHeaders (origin (defaultBehavior d))) @
                       concat (map (\<lambda>(pat, b). map snd (customHeaders (origin b)))
                                 (additionalBehaviors d)))
               (distributions w))"

definition plaintextValues :: "ManagedWordpressConstruct \<Rightarrow> string list" where
  "plaintextValues w =
     concat (map (\<lambda>t. concat (map (map snd \<circ> environment) (containers t))) (taskDefinitions w)) @
     List.map_filter literalOf (headerValues w)"

section \<open>Security groups\<close>

text \<open>
  The file system, the load balancer and the service are declared without a security
  group, so the framework gives each one of its own, named here by the construct id of
  its resource, without any ingress rule. Ingress rules come from three places, and the
  model computes them from the declared resources:
  \<^item> \<^verbatim>\<open>efs.connections.allowDefaultPortFrom(service.connections)\<close> (line 192) admits the
    service on the file system's default port, 2049;
  \<^item> an open listener (\<^verbatim>\<open>open: true\<close>, line 216) admits anyone on the listener's port of
    its load balancer;
  \<^item> a target registered in a target group that a listener forwards to (by a rule or by
    its default action) admits that listener's load balancer on the target's port: the
    host port of the container's port mapping, or its container port when the host port
    is 0.
  A security group admits a connection that one of its ingress rules covers and no other.
  All rules are TCP; only ingress is modelled.
\<close>

datatype Peer = AnyIpv4 | SecurityGroupOf string

record IngressRule =
  ir_peer :: Peer
  ir_port :: number

definition fileSystemIngress :: "ManagedWordpressConstruct \<Rightarrow> FileSystem \<Rightarrow> IngressRule list" where
  "fileSystemIngress w f =
     map (\<lambda>sid. \<lparr>ir_peer = SecurityGroupOf sid, ir_port = 2049\<rparr>) (fs_allowDefaultPortFrom f)"

definition loadBalancerIngress ::
  "ManagedWordpressConstruct \<Rightarrow> ApplicationLoadBalancer \<Rightarrow> IngressRule list" where
  "loadBalancerIngress w b =
     [\<lparr>ir_peer = AnyIpv4, ir_port = listener_port l\<rparr>.
        l \<leftarrow> listeners w, listener_loadBalancer l = lb_id b, listener_open l]"

definition forwardedGroups :: "ManagedWordpressConstruct \<Rightarrow> ApplicationListener \<Rightarrow> string list" where
  "forwardedGroups w l =
     (case defaultAction l of Forward gs \<Rightarrow> gs | FixedResponse status opts \<Rightarrow> []) @
     concat (map rule_targetGroups (rulesOf w l))"

definition targetPort ::
  "ManagedWordpressConstruct \<Rightarrow> FargateService \<Rightarrow> LoadBalancerTarget \<Rightarrow> number option" where
  "targetPort w s t =
     (case find (\<lambda>d. td_id d = svc_taskDefinition s) (taskDefinitions w) of
        None \<Rightarrow> None
      | Some d \<Rightarrow>
          (case find (\<lambda>c. containerName c = lt_containerName t) (containers d) of
             None \<Rightarrow> None
           | Some c \<Rightarrow>
               map_option (\<lambda>p. if hostPort p = 0 then containerPort p else hostPort p)
                 (find (\<lambda>p. containerPort p = lt_containerPort t) (portMappings c))))"

definition serviceIngress :: "ManagedWordpressConstruct \<Rightarrow> FargateService \<Rightarrow> IngressRule list" where
  "serviceIngress w s =
     [\<lparr>ir_peer = SecurityGroupOf (listener_loadBalancer l), ir_port = q\<rparr>.
        l \<leftarrow> listeners w, forwarded \<leftarrow> forwardedGroups w l,
        g \<leftarrow> targetGroups w, tg_id g = forwarded,
        t \<leftarrow> targets g, lt_service t = svc_id s,
        q \<leftarrow> (case targetPort w s t of None \<Rightarrow> [] | Some p \<Rightarrow> [p])]"

text \<open>Who connects: a host on the internet, or a member of the security group of a
  resource.\<close>

datatype Source = Internet | MemberOf string

fun covers :: "Peer \<Rightarrow> Source \<Rightarrow> bool" where
  "covers AnyIpv4 src = True"
| "covers (SecurityGroupOf g) (MemberOf h) = (g = h)"
| "covers (SecurityGroupOf g) Internet = False"

definition admits :: "IngressRule list \<Rightarrow> Source \<Rightarrow> number \<Rightarrow> bool" where
  "admits rules src q = list_ex (\<lambda>r. ir_port r = q \<and> covers (ir_peer r) src) rules"

section \<open>Running the application\<close>

text \<open>
  The framework validates what the constructors hand it and raises when it refuses. The
  constructors of the repository have no \<^verbatim>\<open>try\<close>, no \<^verbatim>\<open>catch\<close> and no loop: every
  framework call is made once, and a refusal ends the run with the framework's error. The
  refusals that the inputs of the application (the account and the region of the process
  environment, the availability zones of the stack) or the properties handed down from
  the stack can cause are, in the order of the statements:
  \<^item> \<^verbatim>\<open>HostedZone.fromLookup\<close> (stack, line 18) without an account or a region;
  \<^item> the subnet selections of the file system (line 68), the load balancer (line 164) and
    the service (line 176, in the VPC of its cluster) when the VPC has no subnet of the
    type;
  \<^item> \<^verbatim>\<open>autoScaleTaskCount\<close> (line 229) with a negative bound or a maximum below the
    minimum.
\<close>

datatype error =
    LookupWithoutEnvironment string
  | NoSubnetsOfType string SubnetType
  | CapacityOutOfRange string number number

definition fromLookup_refusal :: "StackProps option \<Rightarrow> string \<Rightarrow> error option" where
  "fromLookup_refusal props cid =
     (case props of
        None \<Rightarrow> Some (LookupWithoutEnvironment cid)
      | Some p \<Rightarrow>
          if account (env p) = None \<or> region (env p) = None
          then Some (LookupWithoutEnvironment cid) else None)"

definition selection_refusal :: "string \<Rightarrow> Vpc \<Rightarrow> SubnetSelection \<Rightarrow> error option" where
  "selection_refusal cid v sel =
     (case selectSubnets v sel of
        None \<Rightarrow> Some (NoSubnetsOfType cid (subnetType sel))
      | Some subnets \<Rightarrow> None)"

definition capacity_refusal :: "ScalableTaskCount \<Rightarrow> error option" where
  "capacity_refusal s =
     (if maxCapacity s < 0 \<or> minCapacity s < 0 \<or> maxCapacity s < minCapacity s
      then Some (CapacityOutOfRange (stc_service s) (minCapacity s) (maxCapacity s))
      else None)"

definition refusals :: "ManagedWordpressConstruct \<Rightarrow> error option list" where
  "refusals w =
     map (\<lambda>f. selection_refusal (fs_id f) (fs_vpc f) (fs_vpcSubnets f)) (fileSystems w) @
     map (\<lambda>b. selection_refusal (lb_id b) (lb_vpc b) (lb_vpcSubnets b)) (loadBalancers w) @
     [selection_refusal (svc_id s) (cluster_vpc c) (svc_vpcSubnets s).
        s \<leftarrow> services w, c \<leftarrow> clusters w, cluster_id c = svc_cluster s] @
     map capacity_refusal (scalableTargets w)"

fun firstRefusal :: "error option list \<Rightarrow> error option" where
  "firstRefusal [] = None"
| "firstRefusal (Some e # rs) = Some e"
| "firstRefusal (None # rs) = firstRefusal rs"

text \<open>\<^verbatim>\<open>new WordpressStack(scope, id, props)\<close>: the first refusal, or the stack as declared.\<close>

definition new_WordpressStack ::
  "string list \<Rightarrow> string \<Rightarrow> StackProps option \<Rightarrow> error + WordpressStackConstruct" where
  "new_WordpressStack stackZones cid props =
     (let stack = WordpressStack stackZones cid props in
      case firstRefusal (fromLookup_refusal props '' HostedZone'' # refusals (wordpress stack)) of
        Some e \<Rightarrow> Inl e
      | None \<Rightarrow> Inr stack)"

text \<open>\<^verbatim>\<open>deploy.ts\<close>: the one stack of the application, in the account and region of the
  process environment.\<close>

definition deploy ::
  "string list \<Rightarrow> string option \<Rightarrow> string option \<Rightarrow> error + WordpressStackConstruct" where
  "deploy stackZones CDK_DEFAULT_ACCOUNT CDK_DEFAULT_REGION =
     new_WordpressStack stackZones ''Wordpress''
       (Some \<lparr>env = \<lparr>account = CDK_DEFAULT_ACCOUNT, region = CDK_DEFAULT_REGION\<rparr>\<rparr>)"

section \<open>The declared configuration, evaluated\<close>

lemmas constructor_defs =
  ManagedWordpress_def Let_def addContainer_def addVolume_def onDefaultContainer_def
  addMountPoints_def addPortMappings_def addToTaskRolePolicy_def TaskDefinition_new_def
  allowDefaultPortFrom_def loadBalancerTarget_def autoScaleTaskCount_def
  scaleOnCpuUtilization_def scaleOnMemoryUtilization_def fromRegistry_def
  fileSystemId_def fileSystemArn_def accessPointId_def

lemma ManagedWordpress_children:
  "children (ManagedWordpress cid props) =
    (let databaseSecret = FromSecretNameV2 ''DatabaseSecret'' (db_secretName (db props));
         header = unsafeUnwrap (secretValueFromJson databaseSecret ''loadbalancer'')
     in
     [RFileSystem
        \<lparr>fs_id = ''PersistentStorage'', fs_vpc = vpc props, enableAutomaticBackups = True,
         encrypted = True, performanceMode = GENERAL_PURPOSE, throughputMode = ELASTIC,
         fs_vpcSubnets = \<lparr>subnetType = PRIVATE_ISOLATED\<rparr>,
         fs_allowDefaultPortFrom = [''ContainerService'']\<rparr>,
      RAccessPoint
        \<lparr>ap_id = ''PersistentStorageAccessPoint'', ap_fileSystem = ''PersistentStorage'',
         ap_path = ''/wordpress'',
         createAcl = \<lparr>ownerUid = ''1001'', ownerGid = ''0'', permissions = ''0755''\<rparr>,
         posixUser = \<lparr>uid = ''1001'', gid = ''0''\<rparr>\<rparr>,
      RTaskDefinition
        \<lparr>td_id = ''TaskDefinition'', compatibility = FARGATE,
         memoryMiB = toString (size_memory (props_size props)),
         td_cpu = toString (size_cpu (props_size props)),
         containers =
           [\<lparr>containerName = ''WebContainer'',
             container_image = ''bitnami/wordpress:'' @ imageVersion props,
             logging = \<lparr>streamPrefix = ''/ecs/Wordpress'', logRetention = ONE_WEEK\<rparr>,
             environment =
               [(''MYSQL_CLIENT_ENABLE_SSL'', ''yes''),
                (''WORDPRESS_ENABLE_DATABASE_SSL'', ''yes''),
                (''WORDPRESS_EXTRA_WP_CONFIG_CONTENT'',
                 ''define('FORCE_SSL_ADMIN', true); $_SERVER['HTTPS']='on';'')],
             secrets =
               [(''WORDPRESS_DATABASE_NAME'', FromSecretsManager databaseSecret ''dbname''),
                (''WORDPRESS_DATABASE_HOST'', FromSecretsManager databaseSecret ''host''),
                (''WORDPRESS_DATABASE_PORT_NUMBER'', FromSecretsManager databaseSecret ''port''),
                (''WORDPRESS_DATABASE_USER'', FromSecretsManager databaseSecret ''username''),
                (''WORDPRESS_DATABASE_PASSWORD'', FromSecretsManager databaseSecret ''password'')],
             essential = True,
             mountPoints =
               [\<lparr>containerPath = ''/bitnami/wordpress'', readOnly = False,
                 sourceVolume = ''wp-vol''\<rparr>],
             portMappings = [\<lparr>containerPort = CONTAINER_PORT, hostPort = CONTAINER_PORT\<rparr>]\<rparr>],
         defaultContainer = Some ''WebContainer'',
         volumes =
           [\<lparr>vol_name = ''wp-vol'',
             efsVolumeConfiguration =
               \<lparr>evc_fileSystemId = FileSystemId ''PersistentStorage'',
                transitEncryption = ''ENABLED'',
                authorizationConfig =
                  \<lparr>ac_accessPointId = AccessPointId ''PersistentStorageAccessPoint'',
                   iam = ''ENABLED''\<rparr>\<rparr>\<rparr>],
         taskRolePolicy =
           [\<lparr>actions = [''elasticfilesystem:ClientRootAccess'', ''elasticfilesystem:ClientWrite'',
                         ''elasticfilesystem:ClientMount'',
                         ''elasticfilesystem:DescribeMountTargets''],
             resources = [FileSystemArn ''PersistentStorage'']\<rparr>,
            \<lparr>actions = [''secretsmanager:GetSecretValue''],
             resources = [SecretArn databaseSecret]\<rparr>]\<rparr>,
      RSecret databaseSecret,
      RLoadBalancer
        \<lparr>lb_id = ''LoadBalancer'', lb_vpc = vpc props, internetFacing = True,
         lb_vpcSubnets = \<lparr>subnetType = PUBLIC\<rparr>\<rparr>,
      RCluster \<lparr>cluster_id = ''Cluster'', cluster_vpc = vpc props\<rparr>,
      RService
        \<lparr>svc_id = ''ContainerService'', svc_cluster = ''Cluster'',
         svc_taskDefinition = ''TaskDefinition'', assignPublicIp = True, desiredCount = 1,
         svc_vpcSubnets = \<lparr>subnetType = PUBLIC\<rparr>, minHealthyPercent = 50,
         maxHealthyPercent = 200, circuitBreaker = Some \<lparr>rollback = True\<rparr>\<rparr>,
      RTargetGroup
        \<lparr>tg_id = ''TargetGroup'', tg_port = CONTAINER_PORT, tg_protocol = HTTP,
         deregistrationDelay = Seconds 5, tg_vpc = vpc props,
         targets =
           [\<lparr>lt_service = ''ContainerService'', lt_containerName = ''WebContainer'',
             lt_containerPort = CONTAINER_PORT\<rparr>],
         healthCheck =
           \<lparr>hc_path = ''/'', hc_port = toString CONTAINER_PORT, healthyHttpCodes = ''200'',
            hc_interval = Seconds 5, hc_timeout = Seconds 2, healthyThresholdCount = 2\<rparr>\<rparr>,
      RListener
        \<lparr>listener_id = ''Listener'',
         defaultAction =
           FixedResponse 403 \<lparr>contentType = None, messageBody = Some ''Access Denied''\<rparr>,
         listener_loadBalancer = ''LoadBalancer'', listener_open = True, listener_port = 80\<rparr>,
      RListenerRule
        \<lparr>rule_id = ''ListenerRule'', rule_listener = ''Listener'', priority = 1,
         rule_targetGroups = [''TargetGroup''],
         conditions = [HttpHeader ''X-Custom-Header'' [header]]\<rparr>,
      RScaling
        \<lparr>stc_service = ''ContainerService'',
         minCapacity = scaling_min (props_scaling props),
         maxCapacity = scaling_max (props_scaling props),
         policies =
           [\<lparr>policy_id = ''cpu'', predefinedMetric = ECS_SERVICE_AVERAGE_CPU_UTILIZATION,
             targetUtilizationPercent = SCALE_PERCENT\<rparr>,
            \<lparr>policy_id = ''memory'', predefinedMetric = ECS_SERVICE_AVERAGE_MEMORY_UTILIZATION,
             targetUtilizationPercent = SCALE_PERCENT\<rparr>]\<rparr>,
      RCertificate
        \<lparr>cert_id = ''Certificate'', cert_domainName = zoneName (hostedZone props),
         cert_hostedZone = hostedZone props, cert_region = ''us-east-1''\<rparr>,
      RDistribution
        \<lparr>dist_id = ''CDN'', dist_certificate = ''Certificate'',
         domainNames = [zoneName (hostedZone props)], priceClass = PRICE_CLASS_100,
         defaultBehavior =
           \<lparr>origin = \<lparr>origin_loadBalancer = ''LoadBalancer'', protocolPolicy = HTTP_ONLY,
                      customHeaders = [(''X-Custom-Header'', header)]\<rparr>,
            allowedMethods = ALLOW_ALL, cachePolicy = CACHING_DISABLED,
            viewerProtocolPolicy = REDIRECT_TO_HTTPS, originRequestPolicy = ALL_VIEWER\<rparr>,
         additionalBehaviors =
           [(''wp-includes/*'',
             \<lparr>origin = \<lparr>origin_loadBalancer = ''LoadBalancer'', protocolPolicy = HTTP_ONLY,
                        customHeaders = [(''X-Custom-Header'', header)]\<rparr>,
              allowedMethods = ALLOW_ALL, cachePolicy = CACHING_OPTIMIZED,
              viewerProtocolPolicy = REDIRECT_TO_HTTPS,
              originRequestPolicy =
                OriginRequestPolicy_new ''Limited'' QueryString_all
                  (Header_allowList [''Host''])\<rparr>)]\<rparr>,
      RARecord
        \<lparr>arecord_id = ''DomainARecord'', recordName = zoneName (hostedZone props),
         arecord_target = CloudFrontTarget ''CDN'', arecord_zone = hostedZone props\<rparr>])"
  by (simp add: constructor_defs)

lemma ManagedWordpress_fileSystems:
  "fileSystems (ManagedWordpress cid props) =
     [\<lparr>fs_id = ''PersistentStorage'', fs_vpc = vpc props, enableAutomaticBackups = True,
       encrypted = True, performanceMode = GENERAL_PURPOSE, throughputMode = ELASTIC,
       fs_vpcSubnets = \<lparr>subnetType = PRIVATE_ISOLATED\<rparr>,
       fs_allowDefaultPortFrom = [''ContainerService'']\<rparr>]"
  by (simp add: fileSystems_def ManagedWordpress_children Let_def)

lemma ManagedWordpress_accessPoints:
  "accessPoints (ManagedWordpress cid props) =
     [\<lparr>ap_id = ''PersistentStorageAccessPoint'', ap_fileSystem = ''PersistentStorage'',
       ap_path = ''/wordpress'',
       createAcl = \<lparr>ownerUid = ''1001'', ownerGid = ''0'', permissions = ''0755''\<rparr>,
       posixUser = \<lparr>uid = ''1001'', gid = ''0''\<rparr>\<rparr>]"
  by (simp add: accessPoints_def ManagedWordpress_children Let_def)

lemma ManagedWordpress_importedSecrets:
  "importedSecrets (ManagedWordpress cid props) =
     [FromSecretNameV2 ''DatabaseSecret'' (db_secretName (db props))]"
  by (simp add: importedSecrets_def ManagedWordpress_children Let_def)

lemma ManagedWordpress_loadBalancers:
  "loadBalancers (ManagedWordpress cid props) =
     [\<lparr>lb_id = ''LoadBalancer'', lb_vpc = vpc props, internetFacing = True,
       lb_vpcSubnets = \<lparr>subnetType = PUBLIC\<rparr>\<rparr>]"
  by (simp add: loadBalancers_def ManagedWordpress_children Let_def)

lemma ManagedWordpress_services:
  "services (ManagedWordpress cid props) =
     [\<lparr>svc_id = ''ContainerService'', svc_cluster = ''Cluster'',
       svc_taskDefinition = ''TaskDefinition'', assignPublicIp = True, desiredCount = 1,
       svc_vpcSubnets = \<lparr>subnetType = PUBLIC\<rparr>, minHealthyPercent = 50,
       maxHealthyPercent = 200, circuitBreaker = Some \<lparr>rollback = True\<rparr>\<rparr>]"
  by (simp add: services_def ManagedWordpress_children Let_def)

lemma ManagedWordpress_targetGroups:
  "targetGroups (ManagedWordpress cid props) =
     [\<lparr>tg_id = ''TargetGroup'', tg_port = CONTAINER_PORT, tg_protocol = HTTP,
       deregistrationDelay = Seconds 5, tg_vpc = vpc props,
       targets =
         [\<lparr>lt_service = ''ContainerService'', lt_containerName = ''WebContainer'',
           lt_containerPort = CONTAINER_PORT\<rparr>],
       healthCheck =
         \<lparr>hc_path = ''/'', hc_port = toString CONTAINER_PORT, healthyHttpCodes = ''200'',
          hc_interval = Seconds 5, hc_timeout = Seconds 2, healthyThresholdCount = 2\<rparr>\<rparr>]"
  by (simp add: targetGroups_def ManagedWordpress_children Let_def)

lemma ManagedWordpress_listeners:
  "listeners (ManagedWordpress cid props) =
     [\<lparr>listener_id = ''Listener'',
       defaultAction =
         FixedResponse 403 \<lparr>contentType = None, messageBody = Some ''Access Denied''\<rparr>,
       listener_loadBalancer = ''LoadBalancer'', listener_open = True, listener_port = 80\<rparr>]"
  by (simp add: listeners_def ManagedWordpress_children Let_def)

lemma ManagedWordpress_listenerRules:
  "listenerRules (ManagedWordpress cid props) =
     [\<lparr>rule_id = ''ListenerRule'', rule_listener = ''Listener'', priority = 1,
       rule_targetGroups = [''TargetGroup''],
       conditions =
         [HttpHeader ''X-Custom-Header''
            [unsafeUnwrap
               (secretValueFromJson
                  (FromSecretNameV2 ''DatabaseSecret'' (db_secretName (db props)))
                  ''loadbalancer'')]]\<rparr>]"
  by (simp add: listenerRules_def ManagedWordpress_children Let_def)

lemma ManagedWordpress_scalableTargets:
  "scalableTargets (ManagedWordpress cid props) =
     [\<lparr>stc_service = ''ContainerService'',
       minCapacity = scaling_min (props_scaling props),
       maxCapacity = scaling_max (props_scaling props),
       policies =
         [\<lparr>policy_id = ''cpu'', predefinedMetric = ECS_SERVICE_AVERAGE_CPU_UTILIZATION,
           targetUtilizationPercent = SCALE_PERCENT\<rparr>,
          \<lparr>policy_id = ''memory'', predefinedMetric = ECS_SERVICE_AVERAGE_MEMORY_UTILIZATION,
           targetUtilizationPercent = SCALE_PERCENT\<rparr>]\<rparr>]"
  by (simp add: scalableTargets_def ManagedWordpress_children Let_def)

lemma ManagedWordpress_origins:
  "map (\<lambda>d. (origin (defaultBehavior d), map (\<lambda>(pat, b). (pat, origin b)) (additionalBehaviors d)))
     (distributions (ManagedWordpress cid props)) =
   (let header = unsafeUnwrap
                   (secretValueFromJson
                      (FromSecretNameV2 ''DatabaseSecret'' (db_secretName (db props)))
                      ''loadbalancer'')
    in [(\<lparr>origin_loadBalancer = ''LoadBalancer'', protocolPolicy = HTTP_ONLY,
           customHeaders = [(''X-Custom-Header'', header)]\<rparr>,
         [(''wp-includes/*'',
           \<lparr>origin_loadBalancer = ''LoadBalancer'', protocolPolicy = HTTP_ONLY,
            customHeaders = [(''X-Custom-Header'', header)]\<rparr>)])])"
  by (simp add: distributions_def ManagedWordpress_children Let_def)

lemma ManagedWordpress_containers:
  "map containers (taskDefinitions (ManagedWordpress cid props)) =
     (let databaseSecret = FromSecretNameV2 ''DatabaseSecret'' (db_secretName (db props)) in
      [[\<lparr>containerName = ''WebContainer'',
         container_image = ''bitnami/wordpress:'' @ imageVersion props,
         logging = \<lparr>streamPrefix = ''/ecs/Wordpress'', logRetention = ONE_WEEK\<rparr>,
         environment =
           [(''MYSQL_CLIENT_ENABLE_SSL'', ''yes''),
            (''WORDPRESS_ENABLE_DATABASE_SSL'', ''yes''),
            (''WORDPRESS_EXTRA_WP_CONFIG_CONTENT'',
             ''define('FORCE_SSL_ADMIN', true); $_SERVER['HTTPS']='on';'')],
         secrets =
           [(''WORDPRESS_DATABASE_NAME'', FromSecretsManager databaseSecret ''dbname''),
            (''WORDPRESS_DATABASE_HOST'', FromSecretsManager databaseSecret ''host''),
            (''WORDPRESS_DATABASE_PORT_NUMBER'', FromSecretsManager databaseSecret ''port''),
            (''WORDPRESS_DATABASE_USER'', FromSecretsManager databaseSecret ''username''),
            (''WORDPRESS_DATABASE_PASSWORD'', FromSecretsManager databaseSecret ''password'')],
         essential = True,
         mountPoints =
           [\<lparr>containerPath = ''/bitnami/wordpress'', readOnly = False,
             sourceVolume = ''wp-vol''\<rparr>],
         portMappings = [\<lparr>containerPort = CONTAINER_PORT, hostPort = CONTAINER_PORT\<rparr>]\<rparr>]])"
  by (simp add: taskDefinitions_def ManagedWordpress_children Let_def)

lemma ManagedWordpress_theDefaultContainer:
  "map (map_option (\<lambda>c. (containerName c, mountPoints c, portMappings c)) \<circ> theDefaultContainer)
     (taskDefinitions (ManagedWordpress cid props)) =
   [Some (''WebContainer'',
          [\<lparr>containerPath = ''/bitnami/wordpress'', readOnly = False,
            sourceVolume = ''wp-vol''\<rparr>],
          [\<lparr>containerPort = CONTAINER_PORT, hostPort = CONTAINER_PORT\<rparr>])]"
  by (simp add: taskDefinitions_def ManagedWordpress_children Let_def theDefaultContainer_def)

lemma ManagedWordpress_volumes:
  "map volumes (taskDefinitions (ManagedWordpress cid props)) =
     [[\<lparr>vol_name = ''wp-vol'',
        efsVolumeConfiguration =
          \<lparr>evc_fileSystemId = FileSystemId ''PersistentStorage'',
           transitEncryption = ''ENABLED'',
           authorizationConfig =
             \<lparr>ac_accessPointId = AccessPointId ''PersistentStorageAccessPoint'',
              iam = ''ENABLED''\<rparr>\<rparr>\<rparr>]]"
  by (simp add: taskDefinitions_def ManagedWordpress_children Let_def)

text \<open>Where the tasks of the service run, and which declared resources name the service:
  the target of the target group and the file system's connections.\<close>

lemma ManagedWordpress_service_placement:
  "let w = ManagedWordpress cid props in
     map (\<lambda>s. (svc_id s, svc_vpcSubnets s, assignPublicIp s)) (services w) =
       [(''ContainerService'', \<lparr>subnetType = PUBLIC\<rparr>, True)]
   \<and> map (map lt_service \<circ> targets) (targetGroups w) = [[''ContainerService'']]
   \<and> map fs_allowDefaultPortFrom (fileSystems w) = [[''ContainerService'']]"
  by (simp add: Let_def ManagedWordpress_services ManagedWordpress_targetGroups
      ManagedWordpress_fileSystems)

lemma toString_CONTAINER_PORT: "toString CONTAINER_PORT = ''8080''"
  by (simp add: toString_def CONTAINER_PORT_def)

lemma ManagedWordpress_answers:
  "answers (ManagedWordpress cid props) req =
     [(80,
       if req ''X-Custom-Header''
            (unsafeUnwrap
               (secretValueFromJson
                  (FromSecretNameV2 ''DatabaseSecret'' (db_secretName (db props)))
                  ''loadbalancer''))
       then Forward [''TargetGroup'']
       else FixedResponse 403 \<lparr>contentType = None, messageBody = Some ''Access Denied''\<rparr>)]"
  by (simp add: answers_def respond_def rulesOf_def ManagedWordpress_listeners
      ManagedWordpress_listenerRules)

lemma WordpressStack_vpc:
  "stack_vpc (WordpressStack zones cid sp) =
     Vpc_new zones ''VPC'' \<lparr>maxAzs = Some 2, natGateways = Some 0, subnetConfiguration = None\<rparr>"
  by (simp add: WordpressStack_def Let_def)

lemma WordpressStack_wordpress:
  "wordpress (WordpressStack zones cid sp) =
     ManagedWordpress ''WebService''
       \<lparr>siteName = ''No Premise Cloud'',
        hostedZone = HostedZone_fromLookup '' HostedZone'' ''nopremise.cloud'',
        vpc = Vpc_new zones ''VPC''
                \<lparr>maxAzs = Some 2, natGateways = Some 0, subnetConfiguration = None\<rparr>,
        db = \<lparr>db_secretName = ''planetscape-mysql''\<rparr>,
        props_size = \<lparr>size_memory = 512, size_cpu = 256\<rparr>,
        props_scaling = \<lparr>scaling_min = 1, scaling_max = 2\<rparr>,
        imageVersion = ''6.1.1'',
        databaseName = None\<rparr>"
  by (simp add: WordpressStack_def Let_def)

lemma Vpc_new_stack_subnets:
  "vpc_subnets (Vpc_new zones ''VPC''
                  \<lparr>maxAzs = Some 2, natGateways = Some 0, subnetConfiguration = None\<rparr>) =
     map (\<lambda>z. \<lparr>subnet_availabilityZone = z, subnet_group = ''Public'', subnet_type = PUBLIC\<rparr>)
         (take 2 zones) @
     map (\<lambda>z. \<lparr>subnet_availabilityZone = z, subnet_group = ''Isolated'',
                subnet_type = PRIVATE_ISOLATED\<rparr>)
         (take 2 zones)"
  by (simp add: Vpc_new_def Let_def DEFAULT_SUBNETS_NO_NAT_def slice0_def)

lemma selectSubnets_stack_isolated:
  assumes "zones \<noteq> []"
  shows "selectSubnets
           (Vpc_new zones ''VPC''
              \<lparr>maxAzs = Some 2, natGateways = Some 0, subnetConfiguration = None\<rparr>)
           \<lparr>subnetType = PRIVATE_ISOLATED\<rparr> =
         Some (map (\<lambda>z. \<lparr>subnet_availabilityZone = z, subnet_group = ''Isolated'',
                           subnet_type = PRIVATE_ISOLATED\<rparr>)
                 (take 2 zones))"
proof -
  obtain z zs where zones: "zones = z # zs"
    using assms by (cases zones) auto
  show ?thesis
    unfolding selectSubnets_def Vpc_new_stack_subnets
    by (simp add: zones comp_def split: list.split)
qed

lemma selectSubnets_stack_public:
  assumes "zones \<noteq> []"
  shows "selectSubnets
           (Vpc_new zones ''VPC''
              \<lparr>maxAzs = Some 2, natGateways = Some 0, subnetConfiguration = None\<rparr>)
           \<lparr>subnetType = PUBLIC\<rparr> =
         Some (map (\<lambda>z. \<lparr>subnet_availabilityZone = z, subnet_group = ''Public'',
                           subnet_type = PUBLIC\<rparr>)
                 (take 2 zones))"
proof -
  obtain z zs where zones: "zones = z # zs"
    using assms by (cases zones) auto
  show ?thesis
    unfolding selectSubnets_def Vpc_new_stack_subnets
    by (simp add: zones comp_def split: list.split)
qed

lemma ManagedWordpress_clusters:
  "clusters (ManagedWordpress cid props) = [\<lparr>cluster_id = ''Cluster'', cluster_vpc = vpc props\<rparr>]"
  by (simp add: clusters_def ManagedWordpress_children Let_def)

lemma ManagedWordpress_headerValues:
  "headerValues (ManagedWordpress cid props) =
     (let header = Token (SecretValueFromJson
                            (FromSecretNameV2 ''DatabaseSecret'' (db_secretName (db props)))
                            ''loadbalancer'')
      in [header, header, header])"
proof -
  let ?w = "ManagedWordpress cid props"
  have dists:
    "map (\<lambda>d. map snd (customHeaders (origin (defaultBehavior d))) @
               concat (map (\<lambda>(pat, b). map snd (customHeaders (origin b)))
                         (additionalBehaviors d)))
       (distributions ?w) =
     map (\<lambda>(o1, os). map snd (customHeaders o1) @
                      concat (map (\<lambda>(pat, o2). map snd (customHeaders o2)) os))
       (map (\<lambda>d. (origin (defaultBehavior d),
                   map (\<lambda>(pat, b). (pat, origin b)) (additionalBehaviors d)))
          (distributions ?w))"
    by (simp add: comp_def case_prod_unfold)
  show ?thesis
    unfolding headerValues_def dists ManagedWordpress_origins ManagedWordpress_listenerRules
    by (simp add: Let_def unsafeUnwrap_def secretValueFromJson_def)
qed

lemma ManagedWordpress_plaintextValues:
  "plaintextValues (ManagedWordpress cid props) =
     [''yes'', ''yes'', ''define('FORCE_SSL_ADMIN', true); $_SERVER['HTTPS']='on';'']"
proof -
  let ?w = "ManagedWordpress cid props"
  have conts:
    "map (\<lambda>t. concat (map (map snd \<circ> environment) (containers t))) (taskDefinitions ?w) =
     map (\<lambda>cs. concat (map (map snd \<circ> environment) cs)) (map containers (taskDefinitions ?w))"
    by (simp add: comp_def)
  show ?thesis
    unfolding plaintextValues_def conts ManagedWordpress_containers ManagedWordpress_headerValues
    by (simp add: Let_def)
qed

lemma ManagedWordpress_targetPort:
  "map (\<lambda>s. map (\<lambda>g. map (targetPort (ManagedWordpress cid props) s) (targets g))
               (targetGroups (ManagedWordpress cid props)))
     (services (ManagedWordpress cid props)) = [[[Some CONTAINER_PORT]]]"
  by (simp add: services_def targetGroups_def taskDefinitions_def targetPort_def
      ManagedWordpress_children Let_def CONTAINER_PORT_def)

lemma ManagedWordpress_forwardedGroups:
  "map (forwardedGroups (ManagedWordpress cid props)) (listeners (ManagedWordpress cid props)) =
     [[''TargetGroup'']]"
  by (simp add: forwardedGroups_def rulesOf_def ManagedWordpress_listeners
      ManagedWordpress_listenerRules)

lemma ManagedWordpress_serviceIngress:
  "map (serviceIngress (ManagedWordpress cid props)) (services (ManagedWordpress cid props)) =
     [[\<lparr>ir_peer = SecurityGroupOf ''LoadBalancer'', ir_port = CONTAINER_PORT\<rparr>]]"
  using ManagedWordpress_targetPort [of cid props] ManagedWordpress_forwardedGroups [of cid props]
  by (simp add: serviceIngress_def ManagedWordpress_services ManagedWordpress_listeners
      ManagedWordpress_targetGroups)

lemma ManagedWordpress_loadBalancerIngress:
  "map (loadBalancerIngress (ManagedWordpress cid props))
     (loadBalancers (ManagedWordpress cid props)) = [[\<lparr>ir_peer = AnyIpv4, ir_port = 80\<rparr>]]"
  by (simp add: loadBalancerIngress_def ManagedWordpress_loadBalancers ManagedWordpress_listeners)

lemma ManagedWordpress_fileSystemIngress:
  "map (fileSystemIngress (ManagedWordpress cid props))
     (fileSystems (ManagedWordpress cid props)) =
     [[\<lparr>ir_peer = SecurityGroupOf ''ContainerService'', ir_port = 2049\<rparr>]]"
  by (simp add: fileSystemIngress_def ManagedWordpress_fileSystems)

lemma selectSubnets_stack_no_zone:
  "selectSubnets
     (Vpc_new [] ''VPC'' \<lparr>maxAzs = Some 2, natGateways = Some 0, subnetConfiguration = None\<rparr>)
     sel = None"
  by (simp add: selectSubnets_def Vpc_new_stack_subnets)

lemma refusals_stack:
  "refusals (wordpress (WordpressStack zones sid sp)) =
     (if zones = []
      then [Some (NoSubnetsOfType ''PersistentStorage'' PRIVATE_ISOLATED),
            Some (NoSubnetsOfType ''LoadBalancer'' PUBLIC),
            Some (NoSubnetsOfType ''ContainerService'' PUBLIC),
            None]
      else [None, None, None, None])"
proof (cases "zones = []")
  case True
  then show ?thesis
    unfolding refusals_def WordpressStack_wordpress ManagedWordpress_fileSystems
      ManagedWordpress_loadBalancers ManagedWordpress_services ManagedWordpress_clusters
      ManagedWordpress_scalableTargets
    by (simp add: selection_refusal_def capacity_refusal_def selectSubnets_stack_no_zone)
next
  case False
  then show ?thesis
    unfolding refusals_def WordpressStack_wordpress ManagedWordpress_fileSystems
      ManagedWordpress_loadBalancers ManagedWordpress_services ManagedWordpress_clusters
      ManagedWordpress_scalableTargets
    by (simp add: selection_refusal_def capacity_refusal_def
        selectSubnets_stack_isolated selectSubnets_stack_public)
qed

lemma deploy_outcome:
  "deploy zones acct reg =
     (if acct = None \<or> reg = None then Inl (LookupWithoutEnvironment '' HostedZone'')
      else if zones = [] then Inl (NoSubnetsOfType ''PersistentStorage'' PRIVATE_ISOLATED)
      else Inr (WordpressStack zones ''Wordpress''
                  (Some \<lparr>env = \<lparr>account = acct, region = reg\<rparr>\<rparr>)))"
  by (simp add: deploy_def new_WordpressStack_def Let_def fromLookup_refusal_def refusals_stack)

section \<open>The claims\<close>

text \<open>
  Claim C1. Direct access to the origin is restricted by a shared secret in a custom
  header. Both origins of the distribution (the default behaviour and the behaviour for
  \<^verbatim>\<open>wp-includes/*\<close>) point at the load balancer and attach the header
  \<^verbatim>\<open>X-Custom-Header\<close>, whose value is the field \<^verbatim>\<open>loadbalancer\<close> of the database secret.
  The one rule of the one listener of that load balancer has the single condition that
  \<^verbatim>\<open>X-Custom-Header\<close> carries that same value, and forwards to the target group. Hence a
  request is forwarded to the target group exactly when it carries the header with the
  value the edge layer sends; the two configured values are the same term.
\<close>

theorem origin_header_is_listener_rule_header:
  "let w = ManagedWordpress cid props;
       databaseSecret = FromSecretNameV2 ''DatabaseSecret'' (db_secretName (db props));
       header = unsafeUnwrap (secretValueFromJson databaseSecret ''loadbalancer'');
       edgeOrigin = \<lparr>origin_loadBalancer = ''LoadBalancer'', protocolPolicy = HTTP_ONLY,
                      customHeaders = [(''X-Custom-Header'', header)]\<rparr>
   in importedSecrets w = [databaseSecret]
    \<and> map lb_id (loadBalancers w) = [''LoadBalancer'']
    \<and> map tg_id (targetGroups w) = [''TargetGroup'']
    \<and> map (\<lambda>d. origin (defaultBehavior d)) (distributions w) = [edgeOrigin]
    \<and> map (\<lambda>d. map (\<lambda>(pat, b). (pat, origin b)) (additionalBehaviors d)) (distributions w) =
          [[(''wp-includes/*'', edgeOrigin)]]
    \<and> map (\<lambda>l. (listener_id l, listener_loadBalancer l)) (listeners w) =
          [(''Listener'', ''LoadBalancer'')]
    \<and> map (\<lambda>r. (rule_listener r, conditions r, rule_targetGroups r)) (listenerRules w) =
          [(''Listener'', [HttpHeader ''X-Custom-Header'' [header]], [''TargetGroup''])]
    \<and> (\<forall>req. (map snd (answers w req) = [Forward [''TargetGroup'']]) = req ''X-Custom-Header'' header)"
proof -
  have origins:
    "map (\<lambda>d. origin (defaultBehavior d)) (distributions (ManagedWordpress cid props)) =
       map fst (map (\<lambda>d. (origin (defaultBehavior d),
                           map (\<lambda>(pat, b). (pat, origin b)) (additionalBehaviors d)))
                  (distributions (ManagedWordpress cid props)))"
    "map (\<lambda>d. map (\<lambda>(pat, b). (pat, origin b)) (additionalBehaviors d))
        (distributions (ManagedWordpress cid props)) =
       map snd (map (\<lambda>d. (origin (defaultBehavior d),
                           map (\<lambda>(pat, b). (pat, origin b)) (additionalBehaviors d)))
                  (distributions (ManagedWordpress cid props)))"
    by (simp_all add: comp_def)
  show ?thesis
    unfolding Let_def origins ManagedWordpress_origins
    by (simp add: ManagedWordpress_importedSecrets ManagedWordpress_loadBalancers
        ManagedWordpress_targetGroups ManagedWordpress_listeners ManagedWordpress_listenerRules
        ManagedWordpress_answers)
qed

text \<open>
  Claim C2. The container port of the port mapping on the task definition's container,
  the port of the target group, the container port of the load balancer target and the
  port of the health check are one value, \<^verbatim>\<open>CONTAINER_PORT = 8080\<close> (the health check
  takes it as the string \<^verbatim>\<open>"8080"\<close>); the construct declares one task definition with
  one container and one target group with one target, which names that container.
\<close>

theorem container_port_is_target_port:
  "let w = ManagedWordpress cid props in
     map (\<lambda>t. map (\<lambda>c. (containerName c, portMappings c)) (containers t)) (taskDefinitions w) =
       [[(''WebContainer'', [\<lparr>containerPort = CONTAINER_PORT, hostPort = CONTAINER_PORT\<rparr>])]]
   \<and> map (\<lambda>g. (tg_port g, targets g, hc_port (healthCheck g))) (targetGroups w) =
       [(CONTAINER_PORT,
         [\<lparr>lt_service = ''ContainerService'', lt_containerName = ''WebContainer'',
           lt_containerPort = CONTAINER_PORT\<rparr>],
         toString CONTAINER_PORT)]
   \<and> CONTAINER_PORT = 8080
   \<and> toString CONTAINER_PORT = ''8080''"
proof -
  have "map (\<lambda>t. map (\<lambda>c. (containerName c, portMappings c)) (containers t))
          (taskDefinitions (ManagedWordpress cid props)) =
        map (map (\<lambda>c. (containerName c, portMappings c)))
          (map containers (taskDefinitions (ManagedWordpress cid props)))"
    by (simp add: comp_def)
  then show ?thesis
    unfolding Let_def ManagedWordpress_containers
    by (simp add: ManagedWordpress_targetGroups toString_CONTAINER_PORT)
      (simp add: CONTAINER_PORT_def)
qed

text \<open>
  Claim C3. The construct passes \<^verbatim>\<open>props.scaling.min\<close> as \<^verbatim>\<open>minCapacity\<close> and
  \<^verbatim>\<open>props.scaling.max\<close> as \<^verbatim>\<open>maxCapacity\<close> unchanged; the stack instantiates it with 1
  and 2, so in the configuration of the stack the minimum is at most the maximum.
\<close>

theorem scaling_min_le_max:
  "map (\<lambda>s. (minCapacity s, maxCapacity s)) (scalableTargets (ManagedWordpress cid props)) =
     [(scaling_min (props_scaling props), scaling_max (props_scaling props))]
   \<and> map (\<lambda>s. (minCapacity s, maxCapacity s))
        (scalableTargets (wordpress (WordpressStack zones sid sp))) = [(1, 2)]
   \<and> list_all (\<lambda>s. minCapacity s \<le> maxCapacity s)
        (scalableTargets (wordpress (WordpressStack zones sid sp)))"
  by (simp add: WordpressStack_wordpress ManagedWordpress_scalableTargets)

text \<open>
  Claim C4. The database secret is referenced by name and none of its values is embedded.
  The construct looks the secret up with \<^verbatim>\<open>fromSecretNameV2\<close> from the name in its
  properties, which the stack sets to \<^verbatim>\<open>planetscape-mysql\<close>. Every
  \<^verbatim>\<open>WORDPRESS_DATABASE_*\<close> variable of the container is a reference into that secret,
  resolved when the task is launched, and none is among the literal environment
  variables. The header values taken from the secret are tokens. The only literal values
  of the configuration are those of the three environment variables, as the source
  writes them, and the whole declared configuration is the list of resources below, in
  which the secret occurs as \<open>databaseSecret\<close>, a reference by name, and nowhere by value.
\<close>

theorem database_secret_by_reference:
  "let w = ManagedWordpress cid props;
       databaseSecret = FromSecretNameV2 ''DatabaseSecret'' (db_secretName (db props));
       header = Token (SecretValueFromJson databaseSecret ''loadbalancer'')
   in importedSecrets w = [databaseSecret]
    \<and> secretName databaseSecret = db_secretName (db props)
    \<and> map secretName (importedSecrets (wordpress (WordpressStack zones sid sp))) =
          [''planetscape-mysql'']
    \<and> map (map secrets \<circ> containers) (taskDefinitions w) =
          [[[(''WORDPRESS_DATABASE_NAME'', FromSecretsManager databaseSecret ''dbname''),
             (''WORDPRESS_DATABASE_HOST'', FromSecretsManager databaseSecret ''host''),
             (''WORDPRESS_DATABASE_PORT_NUMBER'', FromSecretsManager databaseSecret ''port''),
             (''WORDPRESS_DATABASE_USER'', FromSecretsManager databaseSecret ''username''),
             (''WORDPRESS_DATABASE_PASSWORD'', FromSecretsManager databaseSecret ''password'')]]]
    \<and> map (map environment \<circ> containers) (taskDefinitions w) =
          [[[(''MYSQL_CLIENT_ENABLE_SSL'', ''yes''),
             (''WORDPRESS_ENABLE_DATABASE_SSL'', ''yes''),
             (''WORDPRESS_EXTRA_WP_CONFIG_CONTENT'',
              ''define('FORCE_SSL_ADMIN', true); $_SERVER['HTTPS']='on';'')]]]
    \<and> map (map (filter (\<lambda>(k, v). startsWith ''WORDPRESS_DATABASE_'' k) \<circ> environment)
               \<circ> containers) (taskDefinitions w) = [[[]]]
    \<and> map conditions (listenerRules w) = [[HttpHeader ''X-Custom-Header'' [header]]]
    \<and> map (\<lambda>d. (customHeaders (origin (defaultBehavior d)),
                  map (\<lambda>(pat, b). customHeaders (origin b)) (additionalBehaviors d)))
          (distributions w) =
          [([(''X-Custom-Header'', header)], [[(''X-Custom-Header'', header)]])]
    \<and> headerValues w = [header, header, header]
    \<and> plaintextValues w =
          [''yes'', ''yes'', ''define('FORCE_SSL_ADMIN', true); $_SERVER['HTTPS']='on';'']
    \<and> children w =
          [RFileSystem
             \<lparr>fs_id = ''PersistentStorage'', fs_vpc = vpc props, enableAutomaticBackups = True,
              encrypted = True, performanceMode = GENERAL_PURPOSE, throughputMode = ELASTIC,
              fs_vpcSubnets = \<lparr>subnetType = PRIVATE_ISOLATED\<rparr>,
              fs_allowDefaultPortFrom = [''ContainerService'']\<rparr>,
           RAccessPoint
             \<lparr>ap_id = ''PersistentStorageAccessPoint'', ap_fileSystem = ''PersistentStorage'',
              ap_path = ''/wordpress'',
              createAcl = \<lparr>ownerUid = ''1001'', ownerGid = ''0'', permissions = ''0755''\<rparr>,
              posixUser = \<lparr>uid = ''1001'', gid = ''0''\<rparr>\<rparr>,
           RTaskDefinition
             \<lparr>td_id = ''TaskDefinition'', compatibility = FARGATE,
              memoryMiB = toString (size_memory (props_size props)),
              td_cpu = toString (size_cpu (props_size props)),
              containers =
                [\<lparr>containerName = ''WebContainer'',
                  container_image = ''bitnami/wordpress:'' @ imageVersion props,
                  logging = \<lparr>streamPrefix = ''/ecs/Wordpress'', logRetention = ONE_WEEK\<rparr>,
                  environment =
                    [(''MYSQL_CLIENT_ENABLE_SSL'', ''yes''),
                     (''WORDPRESS_ENABLE_DATABASE_SSL'', ''yes''),
                     (''WORDPRESS_EXTRA_WP_CONFIG_CONTENT'',
                      ''define('FORCE_SSL_ADMIN', true); $_SERVER['HTTPS']='on';'')],
                  secrets =
                    [(''WORDPRESS_DATABASE_NAME'', FromSecretsManager databaseSecret ''dbname''),
                     (''WORDPRESS_DATABASE_HOST'', FromSecretsManager databaseSecret ''host''),
                     (''WORDPRESS_DATABASE_PORT_NUMBER'', FromSecretsManager databaseSecret ''port''),
                     (''WORDPRESS_DATABASE_USER'', FromSecretsManager databaseSecret ''username''),
                     (''WORDPRESS_DATABASE_PASSWORD'', FromSecretsManager databaseSecret ''password'')],
                  essential = True,
                  mountPoints =
                    [\<lparr>containerPath = ''/bitnami/wordpress'', readOnly = False,
                      sourceVolume = ''wp-vol''\<rparr>],
                  portMappings = [\<lparr>containerPort = CONTAINER_PORT, hostPort = CONTAINER_PORT\<rparr>]\<rparr>],
              defaultContainer = Some ''WebContainer'',
              volumes =
                [\<lparr>vol_name = ''wp-vol'',
                  efsVolumeConfiguration =
                    \<lparr>evc_fileSystemId = FileSystemId ''PersistentStorage'',
                     transitEncryption = ''ENABLED'',
                     authorizationConfig =
                       \<lparr>ac_accessPointId = AccessPointId ''PersistentStorageAccessPoint'',
                        iam = ''ENABLED''\<rparr>\<rparr>\<rparr>],
              taskRolePolicy =
                [\<lparr>actions = [''elasticfilesystem:ClientRootAccess'', ''elasticfilesystem:ClientWrite'',
                              ''elasticfilesystem:ClientMount'',
                              ''elasticfilesystem:DescribeMountTargets''],
                  resources = [FileSystemArn ''PersistentStorage'']\<rparr>,
                 \<lparr>actions = [''secretsmanager:GetSecretValue''],
                  resources = [SecretArn databaseSecret]\<rparr>]\<rparr>,
           RSecret databaseSecret,
           RLoadBalancer
             \<lparr>lb_id = ''LoadBalancer'', lb_vpc = vpc props, internetFacing = True,
              lb_vpcSubnets = \<lparr>subnetType = PUBLIC\<rparr>\<rparr>,
           RCluster \<lparr>cluster_id = ''Cluster'', cluster_vpc = vpc props\<rparr>,
           RService
             \<lparr>svc_id = ''ContainerService'', svc_cluster = ''Cluster'',
              svc_taskDefinition = ''TaskDefinition'', assignPublicIp = True, desiredCount = 1,
              svc_vpcSubnets = \<lparr>subnetType = PUBLIC\<rparr>, minHealthyPercent = 50,
              maxHealthyPercent = 200, circuitBreaker = Some \<lparr>rollback = True\<rparr>\<rparr>,
           RTargetGroup
             \<lparr>tg_id = ''TargetGroup'', tg_port = CONTAINER_PORT, tg_protocol = HTTP,
              deregistrationDelay = Seconds 5, tg_vpc = vpc props,
              targets =
                [\<lparr>lt_service = ''ContainerService'', lt_containerName = ''WebContainer'',
                  lt_containerPort = CONTAINER_PORT\<rparr>],
              healthCheck =
                \<lparr>hc_path = ''/'', hc_port = toString CONTAINER_PORT, healthyHttpCodes = ''200'',
                 hc_interval = Seconds 5, hc_timeout = Seconds 2, healthyThresholdCount = 2\<rparr>\<rparr>,
           RListener
             \<lparr>listener_id = ''Listener'',
              defaultAction =
                FixedResponse 403 \<lparr>contentType = None, messageBody = Some ''Access Denied''\<rparr>,
              listener_loadBalancer = ''LoadBalancer'', listener_open = True, listener_port = 80\<rparr>,
           RListenerRule
             \<lparr>rule_id = ''ListenerRule'', rule_listener = ''Listener'', priority = 1,
              rule_targetGroups = [''TargetGroup''],
              conditions = [HttpHeader ''X-Custom-Header'' [header]]\<rparr>,
           RScaling
             \<lparr>stc_service = ''ContainerService'',
              minCapacity = scaling_min (props_scaling props),
              maxCapacity = scaling_max (props_scaling props),
              policies =
                [\<lparr>policy_id = ''cpu'', predefinedMetric = ECS_SERVICE_AVERAGE_CPU_UTILIZATION,
                  targetUtilizationPercent = SCALE_PERCENT\<rparr>,
                 \<lparr>policy_id = ''memory'', predefinedMetric = ECS_SERVICE_AVERAGE_MEMORY_UTILIZATION,
                  targetUtilizationPercent = SCALE_PERCENT\<rparr>]\<rparr>,
           RCertificate
             \<lparr>cert_id = ''Certificate'', cert_domainName = zoneName (hostedZone props),
              cert_hostedZone = hostedZone props, cert_region = ''us-east-1''\<rparr>,
           RDistribution
             \<lparr>dist_id = ''CDN'', dist_certificate = ''Certificate'',
              domainNames = [zoneName (hostedZone props)], priceClass = PRICE_CLASS_100,
              defaultBehavior =
                \<lparr>origin = \<lparr>origin_loadBalancer = ''LoadBalancer'', protocolPolicy = HTTP_ONLY,
                           customHeaders = [(''X-Custom-Header'', header)]\<rparr>,
                 allowedMethods = ALLOW_ALL, cachePolicy = CACHING_DISABLED,
                 viewerProtocolPolicy = REDIRECT_TO_HTTPS, originRequestPolicy = ALL_VIEWER\<rparr>,
              additionalBehaviors =
                [(''wp-includes/*'',
                  \<lparr>origin = \<lparr>origin_loadBalancer = ''LoadBalancer'', protocolPolicy = HTTP_ONLY,
                             customHeaders = [(''X-Custom-Header'', header)]\<rparr>,
                   allowedMethods = ALLOW_ALL, cachePolicy = CACHING_OPTIMIZED,
                   viewerProtocolPolicy = REDIRECT_TO_HTTPS,
                   originRequestPolicy =
                     OriginRequestPolicy_new ''Limited'' QueryString_all
                       (Header_allowList [''Host''])\<rparr>)]\<rparr>,
           RARecord
             \<lparr>arecord_id = ''DomainARecord'', recordName = zoneName (hostedZone props),
              arecord_target = CloudFrontTarget ''CDN'', arecord_zone = hostedZone props\<rparr>]"
proof -
  let ?w = "ManagedWordpress cid props"
  have containers:
    "map (map secrets \<circ> containers) (taskDefinitions ?w) =
       map (map secrets) (map containers (taskDefinitions ?w))"
    "map (map environment \<circ> containers) (taskDefinitions ?w) =
       map (map environment) (map containers (taskDefinitions ?w))"
    "map (map (filter (\<lambda>(k, v). startsWith ''WORDPRESS_DATABASE_'' k) \<circ> environment)
            \<circ> containers) (taskDefinitions ?w) =
       map (map (filter (\<lambda>(k, v). startsWith ''WORDPRESS_DATABASE_'' k) \<circ> environment))
         (map containers (taskDefinitions ?w))"
    by simp_all
  have origins:
    "map (\<lambda>d. (customHeaders (origin (defaultBehavior d)),
                map (\<lambda>(pat, b). customHeaders (origin b)) (additionalBehaviors d)))
       (distributions ?w) =
     map (\<lambda>(o1, os). (customHeaders o1, map (\<lambda>(pat, o2). customHeaders o2) os))
       (map (\<lambda>d. (origin (defaultBehavior d),
                   map (\<lambda>(pat, b). (pat, origin b)) (additionalBehaviors d)))
          (distributions ?w))"
    by (simp add: comp_def case_prod_unfold)
  show ?thesis
    unfolding Let_def containers origins ManagedWordpress_containers ManagedWordpress_origins
      ManagedWordpress_headerValues ManagedWordpress_plaintextValues ManagedWordpress_children
    by (simp add: ManagedWordpress_importedSecrets ManagedWordpress_listenerRules
        WordpressStack_wordpress startsWith_def unsafeUnwrap_def secretValueFromJson_def)
qed

text \<open>
  Claim C5. Rollback on a failed deployment is automatic, and the repository has no error
  handling of its own. The one service the construct declares enables the deployment
  circuit breaker (the property is present) with \<^verbatim>\<open>rollback\<close> set to true, for every
  value of the construct's properties. The run of the application ends with the
  framework's own refusal whenever the framework refuses a call (the lookup of the hosted
  zone without an account or a region, the first subnet selection in a VPC without
  zones): the refusal is not caught, not replaced by a default and not tried again; in
  every other case the run yields the stack as declared, and a stack that the run yields
  has the circuit breaker with rollback.
\<close>

theorem circuit_breaker_rolls_back:
  "map circuitBreaker (services (ManagedWordpress cid props)) = [Some \<lparr>rollback = True\<rparr>]
   \<and> deploy zones acct reg =
       (if acct = None \<or> reg = None then Inl (LookupWithoutEnvironment '' HostedZone'')
        else if zones = [] then Inl (NoSubnetsOfType ''PersistentStorage'' PRIVATE_ISOLATED)
        else Inr (WordpressStack zones ''Wordpress''
                    (Some \<lparr>env = \<lparr>account = acct, region = reg\<rparr>\<rparr>)))
   \<and> (\<forall>s. deploy zones acct reg = Inr s \<longrightarrow>
          map circuitBreaker (services (wordpress s)) = [Some \<lparr>rollback = True\<rparr>])"
proof (intro conjI allI impI)
  show "map circuitBreaker (services (ManagedWordpress cid props)) = [Some \<lparr>rollback = True\<rparr>]"
    by (simp add: ManagedWordpress_services)
next
  show "deploy zones acct reg =
       (if acct = None \<or> reg = None then Inl (LookupWithoutEnvironment '' HostedZone'')
        else if zones = [] then Inl (NoSubnetsOfType ''PersistentStorage'' PRIVATE_ISOLATED)
        else Inr (WordpressStack zones ''Wordpress''
                    (Some \<lparr>env = \<lparr>account = acct, region = reg\<rparr>\<rparr>)))"
    by (rule deploy_outcome)
next
  fix s
  assume "deploy zones acct reg = Inr s"
  then have "s = WordpressStack zones ''Wordpress''
                   (Some \<lparr>env = \<lparr>account = acct, region = reg\<rparr>\<rparr>)"
    unfolding deploy_outcome by (simp split: if_splits)
  then show "map circuitBreaker (services (wordpress s)) = [Some \<lparr>rollback = True\<rparr>]"
    by (simp add: WordpressStack_wordpress ManagedWordpress_services)
qed

theorem circuit_breaker_rolls_back_witness:
  "deploy [''eu-west-1a'', ''eu-west-1b''] (Some ''123456789012'') (Some ''eu-west-1'') =
     Inr (WordpressStack [''eu-west-1a'', ''eu-west-1b''] ''Wordpress''
            (Some \<lparr>env = \<lparr>account = Some ''123456789012'', region = Some ''eu-west-1''\<rparr>\<rparr>))
   \<and> map circuitBreaker
        (services
           (wordpress
              (WordpressStack [''eu-west-1a'', ''eu-west-1b''] ''Wordpress''
                 (Some \<lparr>env = \<lparr>account = Some ''123456789012'',
                               region = Some ''eu-west-1''\<rparr>\<rparr>)))) =
       [Some \<lparr>rollback = True\<rparr>]
   \<and> deploy [''eu-west-1a'', ''eu-west-1b''] None None =
       Inl (LookupWithoutEnvironment '' HostedZone'')"
proof -
  let ?zones = "[''eu-west-1a'', ''eu-west-1b'']"
  let ?acct = "Some ''123456789012''"
  let ?reg = "Some ''eu-west-1''"
  note run = circuit_breaker_rolls_back [where zones = ?zones and acct = ?acct and reg = ?reg]
  note refused = circuit_breaker_rolls_back [where zones = ?zones and acct = None and reg = None]
  have ran: "deploy ?zones ?acct ?reg =
               Inr (WordpressStack ?zones ''Wordpress''
                      (Some \<lparr>env = \<lparr>account = ?acct, region = ?reg\<rparr>\<rparr>))"
    using run by simp
  moreover have "map circuitBreaker
                   (services (wordpress (WordpressStack ?zones ''Wordpress''
                      (Some \<lparr>env = \<lparr>account = ?acct, region = ?reg\<rparr>\<rparr>)))) =
                 [Some \<lparr>rollback = True\<rparr>]"
    using run ran by blast
  moreover have "deploy ?zones None None = Inl (LookupWithoutEnvironment '' HostedZone'')"
    using refused by simp
  ultimately show ?thesis by blast
qed

text \<open>
  Claim C6. The service declares a desired count of 1, and its scaling target has exactly
  two target tracking policies, \<^verbatim>\<open>cpu\<close> on the average CPU utilisation and \<^verbatim>\<open>memory\<close>
  on the average memory utilisation, both with the target \<^verbatim>\<open>SCALE_PERCENT = 90\<close>.
\<close>

theorem desired_count_and_scaling_policies:
  "let w = ManagedWordpress cid props in
     map (\<lambda>s. (svc_id s, desiredCount s)) (services w) = [(''ContainerService'', 1)]
   \<and> map (\<lambda>s. (stc_service s, policies s)) (scalableTargets w) =
       [(''ContainerService'',
         [\<lparr>policy_id = ''cpu'', predefinedMetric = ECS_SERVICE_AVERAGE_CPU_UTILIZATION,
           targetUtilizationPercent = SCALE_PERCENT\<rparr>,
          \<lparr>policy_id = ''memory'', predefinedMetric = ECS_SERVICE_AVERAGE_MEMORY_UTILIZATION,
           targetUtilizationPercent = SCALE_PERCENT\<rparr>])]
   \<and> SCALE_PERCENT = 90"
  by (simp add: Let_def ManagedWordpress_services ManagedWordpress_scalableTargets
      SCALE_PERCENT_def)

text \<open>
  Claim C7. The container port is private: in the declared configuration the tasks of
  the service run in the public subnets with public addresses, but the security group of
  the service has one ingress rule, which admits the security group of the load balancer
  on \<^verbatim>\<open>CONTAINER_PORT = 8080\<close>. So it admits no host of the internet on any port, and a
  member of another security group only when it is the load balancer's, on port 8080.
  The load balancer faces the internet and admits anyone on port 80, and both origins of
  the edge layer point at it; what reaches it is forwarded to the target group exactly
  when it meets the header condition, and is answered with 403 otherwise.
\<close>

theorem container_port_admits_only_load_balancer:
  "let w = ManagedWordpress cid props in
     map (\<lambda>s. (svc_id s, svc_vpcSubnets s, assignPublicIp s)) (services w) =
       [(''ContainerService'', \<lparr>subnetType = PUBLIC\<rparr>, True)]
   \<and> map (serviceIngress w) (services w) =
       [[\<lparr>ir_peer = SecurityGroupOf ''LoadBalancer'', ir_port = CONTAINER_PORT\<rparr>]]
   \<and> CONTAINER_PORT = 8080
   \<and> (\<forall>q. map (\<lambda>s. admits (serviceIngress w s) Internet q) (services w) = [False])
   \<and> (\<forall>g q. map (\<lambda>s. admits (serviceIngress w s) (MemberOf g) q) (services w) =
               [g = ''LoadBalancer'' \<and> q = CONTAINER_PORT])
   \<and> map (\<lambda>b. (lb_id b, internetFacing b, loadBalancerIngress w b)) (loadBalancers w) =
       [(''LoadBalancer'', True, [\<lparr>ir_peer = AnyIpv4, ir_port = 80\<rparr>])]
   \<and> map (\<lambda>d. origin_loadBalancer (origin (defaultBehavior d)) #
                map (\<lambda>(pat, b). origin_loadBalancer (origin b)) (additionalBehaviors d))
         (distributions w) = [[''LoadBalancer'', ''LoadBalancer'']]
   \<and> map (\<lambda>g. (tg_id g, map (\<lambda>t. (lt_service t, lt_containerPort t)) (targets g)))
         (targetGroups w) = [(''TargetGroup'', [(''ContainerService'', CONTAINER_PORT)])]
   \<and> (\<forall>req. answers w req =
          [(80,
            if req ''X-Custom-Header''
                 (unsafeUnwrap
                    (secretValueFromJson
                       (FromSecretNameV2 ''DatabaseSecret'' (db_secretName (db props)))
                       ''loadbalancer''))
            then Forward [''TargetGroup'']
            else FixedResponse 403 \<lparr>contentType = None, messageBody = Some ''Access Denied''\<rparr>)])"
proof -
  let ?w = "ManagedWordpress cid props"
  have ingress:
    "\<And>src q. map (\<lambda>s. admits (serviceIngress ?w s) src q) (services ?w) =
       map (\<lambda>rules. admits rules src q) (map (serviceIngress ?w) (services ?w))"
    by (simp add: comp_def)
  have lbs:
    "map (\<lambda>b. (lb_id b, internetFacing b, loadBalancerIngress ?w b)) (loadBalancers ?w) =
       map (\<lambda>(b, rules). (lb_id b, internetFacing b, rules))
         (zip (loadBalancers ?w) (map (loadBalancerIngress ?w) (loadBalancers ?w)))"
    by (simp add: zip_map2 comp_def zip_same_conv_map)
  have origins:
    "map (\<lambda>d. origin_loadBalancer (origin (defaultBehavior d)) #
               map (\<lambda>(pat, b). origin_loadBalancer (origin b)) (additionalBehaviors d))
       (distributions ?w) =
     map (\<lambda>(o1, os). origin_loadBalancer o1 # map (\<lambda>(pat, o2). origin_loadBalancer o2) os)
       (map (\<lambda>d. (origin (defaultBehavior d),
                   map (\<lambda>(pat, b). (pat, origin b)) (additionalBehaviors d)))
          (distributions ?w))"
    by (simp add: comp_def case_prod_unfold)
  show ?thesis
    unfolding Let_def ingress lbs origins ManagedWordpress_serviceIngress
      ManagedWordpress_loadBalancerIngress ManagedWordpress_origins
    by (simp add: ManagedWordpress_services ManagedWordpress_loadBalancers
        ManagedWordpress_targetGroups ManagedWordpress_answers admits_def)
      (auto simp add: CONTAINER_PORT_def)
qed

text \<open>
  Claim C8. The file system is mounted by the container through an access point that
  fixes the POSIX owner: the access point of the file system has the path
  \<^verbatim>\<open>/wordpress\<close>, creates it for owner 1001, group 0 with permissions 0755, and acts as
  user 1001, group 0; the one volume of the task definition refers to the file system
  and to that access point by their ids, with transit encryption and IAM authorisation
  enabled; the default container of the task definition mounts that volume at
  \<^verbatim>\<open>/bitnami/wordpress\<close>, not read-only.
\<close>

theorem volume_through_access_point:
  "let w = ManagedWordpress cid props in
     map (\<lambda>f. (fs_id f, fileSystemId f)) (fileSystems w) =
       [(''PersistentStorage'', FileSystemId ''PersistentStorage'')]
   \<and> accessPoints w =
       [\<lparr>ap_id = ''PersistentStorageAccessPoint'', ap_fileSystem = ''PersistentStorage'',
         ap_path = ''/wordpress'',
         createAcl = \<lparr>ownerUid = ''1001'', ownerGid = ''0'', permissions = ''0755''\<rparr>,
         posixUser = \<lparr>uid = ''1001'', gid = ''0''\<rparr>\<rparr>]
   \<and> map volumes (taskDefinitions w) =
       [[\<lparr>vol_name = ''wp-vol'',
          efsVolumeConfiguration =
            \<lparr>evc_fileSystemId = FileSystemId ''PersistentStorage'',
             transitEncryption = ''ENABLED'',
             authorizationConfig =
               \<lparr>ac_accessPointId = AccessPointId ''PersistentStorageAccessPoint'',
                iam = ''ENABLED''\<rparr>\<rparr>\<rparr>]]
   \<and> map (map ac_accessPointId \<circ> map (authorizationConfig \<circ> efsVolumeConfiguration) \<circ> volumes)
         (taskDefinitions w) = [map accessPointId (accessPoints w)]
   \<and> map (map_option (\<lambda>c. (containerName c, mountPoints c)) \<circ> theDefaultContainer)
         (taskDefinitions w) =
       [Some (''WebContainer'',
              [\<lparr>containerPath = ''/bitnami/wordpress'', readOnly = False,
                sourceVolume = ''wp-vol''\<rparr>])]"
proof -
  let ?w = "ManagedWordpress cid props"
  have vols:
    "map (map ac_accessPointId \<circ> map (authorizationConfig \<circ> efsVolumeConfiguration) \<circ> volumes)
       (taskDefinitions ?w) =
     map (map ac_accessPointId \<circ> map (authorizationConfig \<circ> efsVolumeConfiguration))
       (map volumes (taskDefinitions ?w))"
    by simp
  have dflt:
    "map (map_option (\<lambda>c. (containerName c, mountPoints c)) \<circ> theDefaultContainer)
       (taskDefinitions ?w) =
     map (map_option (\<lambda>(n, m, p). (n, m)))
       (map (map_option (\<lambda>c. (containerName c, mountPoints c, portMappings c))
              \<circ> theDefaultContainer)
          (taskDefinitions ?w))"
    by (simp add: comp_def option.map_comp)
  show ?thesis
    unfolding Let_def vols dflt ManagedWordpress_volumes ManagedWordpress_theDefaultContainer
    by (simp add: ManagedWordpress_fileSystems ManagedWordpress_accessPoints fileSystemId_def
        accessPointId_def)
qed

text \<open>
  Claim C9. The stack declares one VPC with \<^verbatim>\<open>maxAzs\<close> 2 and no NAT gateway. With at
  least one availability zone in the stack's environment, its subnets are the public and
  the isolated subnets of its (at most two) zones and no others. The file system of the
  construct lives in that VPC and selects the \<^verbatim>\<open>PRIVATE_ISOLATED\<close> subnets, the load
  balancer lives in that VPC, faces the internet and selects the \<^verbatim>\<open>PUBLIC\<close> subnets, and
  both selections resolve: to the isolated and to the public subnets.
\<close>

theorem vpc_has_public_and_isolated_subnets:
  assumes "zones \<noteq> []"
  shows
  "let s = WordpressStack zones sid sp;
       network = stack_vpc s;
       publicSubnets =
         map (\<lambda>z. \<lparr>subnet_availabilityZone = z, subnet_group = ''Public'',
                    subnet_type = PUBLIC\<rparr>) (take 2 zones);
       isolatedSubnets =
         map (\<lambda>z. \<lparr>subnet_availabilityZone = z, subnet_group = ''Isolated'',
                    subnet_type = PRIVATE_ISOLATED\<rparr>) (take 2 zones)
   in network = Vpc_new zones ''VPC''
                  \<lparr>maxAzs = Some 2, natGateways = Some 0, subnetConfiguration = None\<rparr>
    \<and> vpc_natGateways network = Some 0
    \<and> vpc_availabilityZones network = take 2 zones
    \<and> vpc_subnets network = publicSubnets @ isolatedSubnets
    \<and> publicSubnets \<noteq> [] \<and> isolatedSubnets \<noteq> []
    \<and> map (\<lambda>f. (fs_vpc f, fs_vpcSubnets f)) (fileSystems (wordpress s)) =
          [(network, \<lparr>subnetType = PRIVATE_ISOLATED\<rparr>)]
    \<and> map (\<lambda>b. (lb_vpc b, lb_vpcSubnets b, internetFacing b)) (loadBalancers (wordpress s)) =
          [(network, \<lparr>subnetType = PUBLIC\<rparr>, True)]
    \<and> map (\<lambda>f. selectSubnets (fs_vpc f) (fs_vpcSubnets f)) (fileSystems (wordpress s)) =
          [Some isolatedSubnets]
    \<and> map (\<lambda>b. selectSubnets (lb_vpc b) (lb_vpcSubnets b)) (loadBalancers (wordpress s)) =
          [Some publicSubnets]"
proof -
  have taken: "take 2 zones \<noteq> []"
    using assms by (cases zones) auto
  have gateways:
    "vpc_natGateways (Vpc_new zones ''VPC''
        \<lparr>maxAzs = Some 2, natGateways = Some 0, subnetConfiguration = None\<rparr>) = Some 0"
    "vpc_availabilityZones (Vpc_new zones ''VPC''
        \<lparr>maxAzs = Some 2, natGateways = Some 0, subnetConfiguration = None\<rparr>) = take 2 zones"
    by (simp_all add: Vpc_new_def Let_def slice0_def)
  show ?thesis
    unfolding Let_def WordpressStack_vpc WordpressStack_wordpress
      ManagedWordpress_fileSystems ManagedWordpress_loadBalancers
    using taken
    by (simp add: gateways Vpc_new_stack_subnets selectSubnets_stack_isolated [OF assms]
        selectSubnets_stack_public [OF assms])
qed

theorem vpc_has_public_and_isolated_subnets_witness:
  "[''a'', ''b'', ''c''] \<noteq> ([] :: string list)
   \<and> (let s = WordpressStack [''a'', ''b'', ''c''] ''Wordpress'' None;
          network = stack_vpc s;
          publicSubnets =
            map (\<lambda>z. \<lparr>subnet_availabilityZone = z, subnet_group = ''Public'',
                       subnet_type = PUBLIC\<rparr>) (take 2 [''a'', ''b'', ''c'']);
          isolatedSubnets =
            map (\<lambda>z. \<lparr>subnet_availabilityZone = z, subnet_group = ''Isolated'',
                       subnet_type = PRIVATE_ISOLATED\<rparr>) (take 2 [''a'', ''b'', ''c''])
      in network = Vpc_new [''a'', ''b'', ''c''] ''VPC''
                     \<lparr>maxAzs = Some 2, natGateways = Some 0, subnetConfiguration = None\<rparr>
       \<and> vpc_natGateways network = Some 0
       \<and> vpc_availabilityZones network = take 2 [''a'', ''b'', ''c'']
       \<and> vpc_subnets network = publicSubnets @ isolatedSubnets
       \<and> publicSubnets \<noteq> [] \<and> isolatedSubnets \<noteq> []
       \<and> map (\<lambda>f. (fs_vpc f, fs_vpcSubnets f)) (fileSystems (wordpress s)) =
             [(network, \<lparr>subnetType = PRIVATE_ISOLATED\<rparr>)]
       \<and> map (\<lambda>b. (lb_vpc b, lb_vpcSubnets b, internetFacing b)) (loadBalancers (wordpress s)) =
             [(network, \<lparr>subnetType = PUBLIC\<rparr>, True)]
       \<and> map (\<lambda>f. selectSubnets (fs_vpc f) (fs_vpcSubnets f)) (fileSystems (wordpress s)) =
             [Some isolatedSubnets]
       \<and> map (\<lambda>b. selectSubnets (lb_vpc b) (lb_vpcSubnets b)) (loadBalancers (wordpress s)) =
             [Some publicSubnets])"
proof -
  have zones: "[''a'', ''b'', ''c''] \<noteq> ([] :: string list)"
    by simp
  from zones vpc_has_public_and_isolated_subnets [OF zones, of "''Wordpress''" None]
  show ?thesis ..
qed

text \<open>
  Claim C10. The construct declares one listener, on port 80 of the load balancer and open
  to connections from anywhere, with one rule. A request that does not meet the rule's
  header condition (\<^verbatim>\<open>X-Custom-Header\<close> with the shared secret) gets the listener's
  default action: the fixed response 403 with the body \<^verbatim>\<open>Access Denied\<close>.
\<close>

theorem request_without_header_is_denied:
  assumes "\<not> req ''X-Custom-Header''
               (unsafeUnwrap
                  (secretValueFromJson
                     (FromSecretNameV2 ''DatabaseSecret'' (db_secretName (db props)))
                     ''loadbalancer''))"
  shows
  "let w = ManagedWordpress cid props in
     map (\<lambda>l. (listener_loadBalancer l, listener_port l, listener_open l, defaultAction l))
       (listeners w) =
       [(''LoadBalancer'', 80, True,
         FixedResponse 403 \<lparr>contentType = None, messageBody = Some ''Access Denied''\<rparr>)]
   \<and> map (\<lambda>r. (rule_listener r, priority r, conditions r)) (listenerRules w) =
       [(''Listener'', 1,
         [HttpHeader ''X-Custom-Header''
            [unsafeUnwrap
               (secretValueFromJson
                  (FromSecretNameV2 ''DatabaseSecret'' (db_secretName (db props)))
                  ''loadbalancer'')]])]
   \<and> answers w req =
       [(80, FixedResponse 403 \<lparr>contentType = None, messageBody = Some ''Access Denied''\<rparr>)]"
  using assms
  by (simp add: Let_def ManagedWordpress_listeners ManagedWordpress_listenerRules
      ManagedWordpress_answers)

theorem request_without_header_is_denied_witness:
  "let props = \<lparr>siteName = ''No Premise Cloud'',
                hostedZone = \<lparr>zoneName = ''nopremise.cloud''\<rparr>,
                vpc = Vpc_new [''a'', ''b''] ''VPC''
                        \<lparr>maxAzs = Some 2, natGateways = Some 0, subnetConfiguration = None\<rparr>,
                db = \<lparr>db_secretName = ''planetscape-mysql''\<rparr>,
                props_size = \<lparr>size_memory = 512, size_cpu = 256\<rparr>,
                props_scaling = \<lparr>scaling_min = 1, scaling_max = 2\<rparr>,
                imageVersion = ''6.1.1'',
                databaseName = None\<rparr>;
       hostOnly = (\<lambda>name v. name = ''Host'');
       w = ManagedWordpress ''WebService'' props
   in \<not> hostOnly ''X-Custom-Header''
          (unsafeUnwrap
             (secretValueFromJson
                (FromSecretNameV2 ''DatabaseSecret'' (db_secretName (db props)))
                ''loadbalancer''))
    \<and> map (\<lambda>l. (listener_loadBalancer l, listener_port l, listener_open l, defaultAction l))
          (listeners w) =
          [(''LoadBalancer'', 80, True,
            FixedResponse 403 \<lparr>contentType = None, messageBody = Some ''Access Denied''\<rparr>)]
    \<and> answers w hostOnly =
          [(80, FixedResponse 403 \<lparr>contentType = None, messageBody = Some ''Access Denied''\<rparr>)]"
proof -
  let ?props = "\<lparr>siteName = ''No Premise Cloud'',
                hostedZone = \<lparr>zoneName = ''nopremise.cloud''\<rparr>,
                vpc = Vpc_new [''a'', ''b''] ''VPC''
                        \<lparr>maxAzs = Some 2, natGateways = Some 0, subnetConfiguration = None\<rparr>,
                db = \<lparr>db_secretName = ''planetscape-mysql''\<rparr>,
                props_size = \<lparr>size_memory = 512, size_cpu = 256\<rparr>,
                props_scaling = \<lparr>scaling_min = 1, scaling_max = 2\<rparr>,
                imageVersion = ''6.1.1'',
                databaseName = None\<rparr>"
  let ?hostOnly = "\<lambda>(name :: string) (v :: tstring). name = ''Host''"
  have unmet: "\<not> ?hostOnly ''X-Custom-Header''
                   (unsafeUnwrap
                      (secretValueFromJson
                         (FromSecretNameV2 ''DatabaseSecret'' (db_secretName (db ?props)))
                         ''loadbalancer''))"
    by simp
  from request_without_header_is_denied [of ?hostOnly ?props "''WebService''", OF unmet]
  show ?thesis
    unfolding Let_def using unmet by blast
qed

end
